theory Spec2Isabelle
  imports Main
begin

section \<open>JavaScript values used by stateToHTML.js\<close>

text \<open>
  Strings are lists of code units. A \<^typ>\<open>char\<close> holds the code units 0..255, which
  covers every character the source compares against: the space, the no-break space
  (code unit 0xA0), the ampersand, the angle brackets, the double quote and the newline.
\<close>

definition NBSP :: char where
  "NBSP = CHR 0xA0"

definition DQUOTE :: char where
  "DQUOTE = CHR 0x22"

text \<open>
  \<open>text.split(c)\<close> for a separator of one code unit: the pieces between the
  occurrences of \<open>c\<close>; the empty string splits into one empty piece.
\<close>

fun js_split :: "char \<Rightarrow> string \<Rightarrow> string list" where
  "js_split c [] = [[]]"
| "js_split c (x # xs) =
     (if x = c then [] # js_split c xs
      else (case js_split c xs of
              [] \<Rightarrow> [[x]]
            | p # ps \<Rightarrow> (x # p) # ps))"

text \<open>\<open>parts.join(sep)\<close> on an array of strings.\<close>

fun js_join :: "string \<Rightarrow> string list \<Rightarrow> string" where
  "js_join sep [] = []"
| "js_join sep [p] = p"
| "js_join sep (p # q # ps) = p @ sep @ js_join sep (q # ps)"

text \<open>
  \<open>Array.prototype.join\<close> renders a hole, \<open>null\<close> and \<open>undefined\<close> as the empty
  string. \<open>None\<close> stands for those three.
\<close>

definition js_join_nullable :: "string \<Rightarrow> string option list \<Rightarrow> string" where
  "js_join_nullable sep parts =
     js_join sep (map (\<lambda>p. case p of None \<Rightarrow> [] | Some s \<Rightarrow> s) parts)"

text \<open>
  A plain object is the list of its own enumerable properties in the order
  \<open>Object.keys\<close> reports them: array-index keys in ascending numeric order
  first, then the other string keys in insertion order.
\<close>

type_synonym 'v obj = "(string \<times> 'v) list"

definition hasOwnProperty :: "'v obj \<Rightarrow> string \<Rightarrow> bool" where
  "hasOwnProperty ob k = (map_of ob k \<noteq> None)"

text \<open>The decimal digits are the code units 48..57, the letters a-z are 97..122.\<close>

definition is_digit :: "char \<Rightarrow> bool" where
  "is_digit c = ((48::nat) \<le> of_char c \<and> of_char c \<le> (57::nat))"

definition digits_value :: "string \<Rightarrow> nat" where
  "digits_value s = foldl (\<lambda>acc c. 10 * acc + (of_char c - of_char CHR ''0'')) 0 s"

text \<open>
  The array-index keys: canonical decimal strings (no sign, no leading zero) of a
  value below \<open>2^32 - 1\<close>.
\<close>

definition array_index :: "string \<Rightarrow> nat option" where
  "array_index k =
     (if k \<noteq> [] \<and> list_all is_digit k \<and> (k = ''0'' \<or> hd k \<noteq> CHR ''0'')
         \<and> digits_value k < 2 ^ 32 - 1
      then Some (digits_value k) else None)"

text \<open>Where a new key goes among the existing properties.\<close>

fun obj_insert :: "string \<Rightarrow> 'v \<Rightarrow> 'v obj \<Rightarrow> 'v obj" where
  "obj_insert k v [] = [(k, v)]"
| "obj_insert k v ((k', v') # rest) =
     (case array_index k of
        None \<Rightarrow> (k', v') # obj_insert k v rest
      | Some i \<Rightarrow>
          (case array_index k' of
             None \<Rightarrow> (k, v) # (k', v') # rest
           | Some j \<Rightarrow> if i < j then (k, v) # (k', v') # rest
                       else (k', v') # obj_insert k v rest))"

text \<open>
  \<open>ob[k] = v\<close>: an existing property keeps its place and takes the new value, a
  new one is created.
\<close>

definition obj_set :: "string \<Rightarrow> 'v \<Rightarrow> 'v obj \<Rightarrow> 'v obj" where
  "obj_set k v ob =
     (if hasOwnProperty ob k
      then map (\<lambda>(k', v'). if k' = k then (k', v) else (k', v')) ob
      else obj_insert k v ob)"

text \<open>\<open>Object.assign(target, source)\<close>: every own property of the source, in key order.\<close>

definition Object_assign :: "'v obj \<Rightarrow> 'v obj \<Rightarrow> 'v obj" where
  "Object_assign target source = fold (\<lambda>(k, v) t. obj_set k v t) source target"

section \<open>Constants of the module\<close>

definition INDENT :: string where
  "INDENT = ''  ''"

definition BREAK :: string where
  "BREAK = ''<br>''"

text \<open>
  \<open>DATA_ATTRIBUTE = /^data-([a-z0-9-]+)$/\<close>, as the test the source applies with
  \<open>DATA_ATTRIBUTE.test(dataKey)\<close>.
\<close>

definition data_attr_char :: "char \<Rightarrow> bool" where
  "data_attr_char c =
     (((97::nat) \<le> of_char c \<and> of_char c \<le> (122::nat)) \<or> is_digit c \<or> c = CHR ''-'')"

definition DATA_ATTRIBUTE_test :: "string \<Rightarrow> bool" where
  "DATA_ATTRIBUTE_test k =
     (take 5 k = ''data-'' \<and> drop 5 k \<noteq> [] \<and> list_all data_attr_char (drop 5 k))"

section \<open>Escaping\<close>

definition encodeContent :: "string \<Rightarrow> string" where
  "encodeContent text =
     js_join (BREAK @ ''\<newline>'') (js_split CHR ''\<newline>''
       (js_join ''&nbsp;'' (js_split NBSP
         (js_join ''&gt;'' (js_split CHR ''>''
           (js_join ''&lt;'' (js_split CHR ''<''
             (js_join ''&amp;'' (js_split CHR ''&'' text)))))))))"

definition encodeAttr :: "string \<Rightarrow> string" where
  "encodeAttr text =
     js_join ''&quot;'' (js_split DQUOTE
       (js_join ''&gt;'' (js_split CHR ''>''
         (js_join ''&lt;'' (js_split CHR ''<''
           (js_join ''&amp;'' (js_split CHR ''&'' text)))))))"

text \<open>
  Attribute values: a string, or \<open>None\<close> for \<open>null\<close>/\<open>undefined\<close>. A number is
  held as the string \<open>value + ''\<close> makes of it.
\<close>

type_synonym Attributes = "string option obj"

fun stringifyAttrs_parts :: "Attributes \<Rightarrow> string list" where
  "stringifyAttrs_parts [] = []"
| "stringifyAttrs_parts ((name, value) # rest) =
     (case value of
        None \<Rightarrow> stringifyAttrs_parts rest
      | Some v \<Rightarrow>
          ('' '' @ name @ ''='' @ [DQUOTE] @ encodeAttr v @ [DQUOTE]) # stringifyAttrs_parts rest)"

definition stringifyAttrs :: "Attributes option \<Rightarrow> string" where
  "stringifyAttrs attrs =
     (case attrs of
        None \<Rightarrow> []
      | Some a \<Rightarrow> js_join [] (stringifyAttrs_parts a))"

section \<open>Whitespace preservation\<close>

text \<open>
  The \<open>for\<close> loop of \<open>preserveWhitespace\<close>: \<open>newText\<close> starts as
  \<open>new Array(length)\<close>, an array of holes, and slot \<open>i\<close> is assigned in round \<open>i\<close>.
\<close>

function preserveWhitespace_loop :: "string \<Rightarrow> nat \<Rightarrow> string option list \<Rightarrow> string option list" where
  "preserveWhitespace_loop text i newText =
     (if i < length text
      then preserveWhitespace_loop text (i + 1)
             (newText[i :=
                (if text ! i = CHR '' '' \<and>
                    (i = 0 \<or> i = length text - 1 \<or> text ! (i - 1) = CHR '' '')
                 then Some [NBSP]
                 else Some [text ! i])])
      else newText)"
  by pat_completeness auto
termination
  by (relation "measure (\<lambda>(text, i, newText). length text - i)") auto

declare preserveWhitespace_loop.simps [simp del]

definition preserveWhitespace :: "string \<Rightarrow> string" where
  "preserveWhitespace text =
     js_join_nullable [] (preserveWhitespace_loop text 0 (replicate (length text) None))"

section \<open>The document model and the configuration\<close>

text \<open>
  The constants the source imports from \<open>draft-js-utils\<close>: \<open>BLOCK_TYPE\<close>,
  \<open>ENTITY_TYPE\<close> and \<open>INLINE_STYLE\<close>, with the values that library gives them.
\<close>

abbreviation HEADER_ONE :: string where "HEADER_ONE \<equiv> ''header-one''"
abbreviation HEADER_TWO :: string where "HEADER_TWO \<equiv> ''header-two''"
abbreviation HEADER_THREE :: string where "HEADER_THREE \<equiv> ''header-three''"
abbreviation HEADER_FOUR :: string where "HEADER_FOUR \<equiv> ''header-four''"
abbreviation HEADER_FIVE :: string where "HEADER_FIVE \<equiv> ''header-five''"
abbreviation HEADER_SIX :: string where "HEADER_SIX \<equiv> ''header-six''"
abbreviation UNORDERED_LIST_ITEM :: string where "UNORDERED_LIST_ITEM \<equiv> ''unordered-list-item''"
abbreviation ORDERED_LIST_ITEM :: string where "ORDERED_LIST_ITEM \<equiv> ''ordered-list-item''"
abbreviation BLOCKQUOTE :: string where "BLOCKQUOTE \<equiv> ''blockquote''"
abbreviation BLOCK_TYPE_CODE :: string where "BLOCK_TYPE_CODE \<equiv> ''code-block''"
abbreviation ATOMIC :: string where "ATOMIC \<equiv> ''atomic''"
abbreviation UNSTYLED :: string where "UNSTYLED \<equiv> ''unstyled''"

abbreviation LINK :: string where "LINK \<equiv> ''LINK''"
abbreviation IMAGE :: string where "IMAGE \<equiv> ''IMAGE''"

abbreviation BOLD :: string where "BOLD \<equiv> ''BOLD''"
abbreviation CODE :: string where "CODE \<equiv> ''CODE''"
abbreviation ITALIC :: string where "ITALIC \<equiv> ''ITALIC''"
abbreviation STRIKETHROUGH :: string where "STRIKETHROUGH \<equiv> ''STRIKETHROUGH''"
abbreviation UNDERLINE :: string where "UNDERLINE \<equiv> ''UNDERLINE''"

text \<open>
  The metadata of one character: its inline styles (an ordered set, held as the list
  of its members in iteration order) and its entity key, if any.
\<close>

record CharacterMetadata =
  getStyle :: "string list"
  getEntity :: "string option"

record ContentBlock =
  getType :: string
  getText :: string
  getDepth :: int
  getCharacterList :: "CharacterMetadata list"

type_synonym EntityData = "string option obj"

record EntityInstance =
  entity_getType :: string
  getData :: EntityData

type_synonym AttrMap = "string obj"
type_synonym StyleDescr = "string obj"

record RenderConfig =
  element :: "string option"
  attributes :: "Attributes option"
  style :: "StyleDescr option"

type_synonym BlockRenderer = "ContentBlock \<Rightarrow> string option"
type_synonym EntityGetter = "string \<Rightarrow> EntityInstance option"
type_synonym EntityFormatter = "string \<Rightarrow> string \<Rightarrow> EntityData \<Rightarrow> string option"
type_synonym StyleMap = "RenderConfig obj"
type_synonym BlockStyleFn = "ContentBlock \<Rightarrow> RenderConfig option"

text \<open>
  An attributes renderer is either the closure \<open>DATA_TO_ATTR\<close> returns, which reads
  the attribute table it was given each time it runs, or a function of the caller.
\<close>

datatype EntityAttributesRenderer =
  DATA_TO_ATTR_closure
| CallerRenderer "string \<Rightarrow> EntityInstance \<Rightarrow> Attributes option"

text \<open>
  The options object. \<open>None\<close> is a property the object does not have. The
  constructor also reads \<open>entityAttributesMap\<close>, which the \<open>Options\<close> type leaves out.
\<close>

record Options =
  inlineStyles :: "StyleMap option"
  blockRenderers :: "BlockRenderer obj option"
  blockStyleFn :: "BlockStyleFn option"
  entityGetter :: "EntityGetter option"
  entityFormatterMap :: "EntityFormatter obj option"
  entityAttributesMap :: "AttrMap obj option"
  entityAttributesRendererMap :: "EntityAttributesRenderer obj option"

definition no_options :: Options where
  "no_options =
     \<lparr>inlineStyles = None, blockRenderers = None, blockStyleFn = None, entityGetter = None,
      entityFormatterMap = None, entityAttributesMap = None,
      entityAttributesRendererMap = None\<rparr>"

text \<open>
  The state of the module: the two tables \<open>ENTITY_ATTR_MAP\<close> and
  \<open>ENTITY_FORMATTER_MAP\<close>, which every generator refers to (its fields
  \<open>entityAttributesMap\<close> and \<open>entityFormatterMap\<close> are references to these objects, not
  copies), and the entity registry behind \<open>Entity.get\<close> of \<open>draft-js\<close>.
\<close>

record Globals =
  ENTITY_ATTR_MAP :: "AttrMap obj"
  ENTITY_FORMATTER_MAP :: "EntityFormatter obj"
  Entity_get :: EntityGetter

definition DEFAULT_STYLE_MAP :: StyleMap where
  "DEFAULT_STYLE_MAP =
     [(BOLD, \<lparr>element = Some ''strong'', attributes = None, style = None\<rparr>),
      (CODE, \<lparr>element = Some ''code'', attributes = None, style = None\<rparr>),
      (ITALIC, \<lparr>element = Some ''em'', attributes = None, style = None\<rparr>),
      (STRIKETHROUGH, \<lparr>element = Some ''del'', attributes = None, style = None\<rparr>),
      (UNDERLINE, \<lparr>element = Some ''ins'', attributes = None, style = None\<rparr>)]"

definition DEFAULT_STYLE_ORDER :: "string list" where
  "DEFAULT_STYLE_ORDER = [BOLD, ITALIC, UNDERLINE, STRIKETHROUGH, CODE]"

text \<open>
  The tables as the module creates them when it is loaded. The \<open>DEFAULT\<close> formatter
  is the template literal \<open><span$attrString}>${content}</span>\<close>: only
  \<open>${content}\<close> is a substitution, the text \<open>$attrString}\<close> is literal.
\<close>

definition initial_ENTITY_ATTR_MAP :: "AttrMap obj" where
  "initial_ENTITY_ATTR_MAP =
     [(LINK, [(''url'', ''href''), (''rel'', ''rel''), (''target'', ''target''),
              (''title'', ''title''), (''className'', ''class'')]),
      (IMAGE, [(''src'', ''src''), (''height'', ''height''), (''width'', ''width''),
               (''alt'', ''alt''), (''className'', ''class'')])]"

definition initial_ENTITY_FORMATTER_MAP :: "EntityFormatter obj" where
  "initial_ENTITY_FORMATTER_MAP =
     [(LINK, \<lambda>content attrString entityData. Some (''<a'' @ attrString @ ''>'' @ content @ ''</a>'')),
      (IMAGE, \<lambda>content attrString entityData. Some (''<img'' @ attrString @ ''/>'')),
      (''DEFAULT'', \<lambda>content attrString entityData.
         Some (''<span$attrString}>'' @ content @ ''</span>''))]"

definition initial_globals :: "EntityGetter \<Rightarrow> Globals" where
  "initial_globals registry =
     \<lparr>ENTITY_ATTR_MAP = initial_ENTITY_ATTR_MAP,
      ENTITY_FORMATTER_MAP = initial_ENTITY_FORMATTER_MAP,
      Entity_get = registry\<rparr>"

text \<open>
  The body of the \<open>DEFAULT\<close> function of \<open>DATA_TO_ATTR(entityAttributesMap)\<close>: the
  loop over \<open>Object.keys(data)\<close>, then the function itself, with the table
  \<open>entityAttributesMap\<close> refers to as its first argument.
\<close>

fun DATA_TO_ATTR_loop :: "AttrMap \<Rightarrow> EntityData \<Rightarrow> Attributes \<Rightarrow> Attributes" where
  "DATA_TO_ATTR_loop attrMap [] attrs = attrs"
| "DATA_TO_ATTR_loop attrMap ((dataKey, dataValue) # rest) attrs =
     (case map_of attrMap dataKey of
        Some attrKey \<Rightarrow> DATA_TO_ATTR_loop attrMap rest (obj_set attrKey dataValue attrs)
      | None \<Rightarrow>
          if DATA_ATTRIBUTE_test dataKey
          then DATA_TO_ATTR_loop attrMap rest (obj_set dataKey dataValue attrs)
          else DATA_TO_ATTR_loop attrMap rest attrs)"

definition DATA_TO_ATTR_DEFAULT :: "AttrMap obj \<Rightarrow> string \<Rightarrow> EntityInstance \<Rightarrow> Attributes" where
  "DATA_TO_ATTR_DEFAULT attrTable entityType entity =
     (let attrMap = (case map_of attrTable entityType of
                       Some m \<Rightarrow> m
                     | None \<Rightarrow> [])
      in DATA_TO_ATTR_loop attrMap (getData entity) [])"

definition DATA_TO_ATTR :: "EntityAttributesRenderer obj" where
  "DATA_TO_ATTR = [(''DEFAULT'', DATA_TO_ATTR_closure)]"

definition call_renderer ::
  "Globals \<Rightarrow> EntityAttributesRenderer \<Rightarrow> string \<Rightarrow> EntityInstance \<Rightarrow> Attributes option" where
  "call_renderer gl r entityType entity =
     (case r of
        DATA_TO_ATTR_closure \<Rightarrow> Some (DATA_TO_ATTR_DEFAULT (ENTITY_ATTR_MAP gl) entityType entity)
      | CallerRenderer f \<Rightarrow> f entityType entity)"

fun getTags :: "string \<Rightarrow> string list" where
  "getTags blockType =
     (if blockType = HEADER_ONE then [''h1'']
      else if blockType = HEADER_TWO then [''h2'']
      else if blockType = HEADER_THREE then [''h3'']
      else if blockType = HEADER_FOUR then [''h4'']
      else if blockType = HEADER_FIVE then [''h5'']
      else if blockType = HEADER_SIX then [''h6'']
      else if blockType = UNORDERED_LIST_ITEM \<or> blockType = ORDERED_LIST_ITEM then [''li'']
      else if blockType = BLOCKQUOTE then [''blockquote'']
      else if blockType = BLOCK_TYPE_CODE then [''pre'', ''code'']
      else if blockType = ATOMIC then [''figure'']
      else [''p''])"

fun getWrapperTag :: "string \<Rightarrow> string option" where
  "getWrapperTag blockType =
     (if blockType = UNORDERED_LIST_ITEM then Some ''ul''
      else if blockType = ORDERED_LIST_ITEM then Some ''ol''
      else None)"

fun canHaveDepth :: "string \<Rightarrow> bool" where
  "canHaveDepth blockType =
     (if blockType = UNORDERED_LIST_ITEM \<or> blockType = ORDERED_LIST_ITEM then True
      else False)"

section \<open>What the module imports\<close>

text \<open>
  Modelled from the spec: \<open>helpers/normalizeAttributes\<close> is imported by the source and
  is not part of it. The spec says of it that an attribute name in its DOM spelling is
  mapped to its markup name, and names \<open>className\<close>, which becomes \<open>class\<close>; an
  absent mapping stays absent.
\<close>

definition normalizeAttributes :: "Attributes option \<Rightarrow> Attributes option" where
  "normalizeAttributes attrs =
     (case attrs of
        None \<Rightarrow> None
      | Some a \<Rightarrow>
          Some (fold (\<lambda>(name, v) acc. obj_set (if name = ''className'' then ''class'' else name) v acc)
                  a []))"

text \<open>
  Modelled from the spec: \<open>helpers/combineOrderedStyles\<close> is imported by the source and
  is not part of it. The spec says that the caller's \<open>inlineStyles\<close> are merged over
  the default table, the caller's entries taking precedence, and that the caller's style
  names are appended to the default order unless already present.
\<close>

definition combineOrderedStyles ::
  "StyleMap option \<Rightarrow> StyleMap \<times> string list \<Rightarrow> StyleMap \<times> string list" where
  "combineOrderedStyles customMap defaults =
     (case customMap of
        None \<Rightarrow> defaults
      | Some cm \<Rightarrow>
          fold (\<lambda>(styleName, config) (styleMap, order).
                  (obj_set styleName config styleMap,
                   if styleName \<in> set order then order else order @ [styleName]))
            cm defaults)"

text \<open>
  \<open>helpers/styleToCSS\<close> is imported as well; nothing is said of the string it makes, so
  the functions below take it as their first argument \<open>css\<close>.
\<close>

type_synonym StyleToCSS = "StyleDescr \<Rightarrow> string"

text \<open>
  Maximal runs: neighbours with the same tag (under \<open>same\<close>) are collected into one
  run, which carries the tag of its first member.
\<close>

fun collect_runs :: "('t \<Rightarrow> 't \<Rightarrow> bool) \<Rightarrow> ('t \<times> 'c) list \<Rightarrow> ('t \<times> 'c list) list" where
  "collect_runs same [] = []"
| "collect_runs same ((t, c) # rest) =
     (case collect_runs same rest of
        [] \<Rightarrow> [(t, [c])]
      | (t', cs) # runs \<Rightarrow>
          if same t t' then (t, c # cs) # runs else (t, [c]) # (t', cs) # runs)"

text \<open>\<open>charMetaList.get(i)\<close>, with the defaults the library uses where there is no entry.\<close>

definition charMeta_at :: "CharacterMetadata list \<Rightarrow> nat \<Rightarrow> CharacterMetadata" where
  "charMeta_at charMetaList i =
     (if i < length charMetaList then charMetaList ! i
      else \<lparr>getStyle = [], getEntity = None\<rparr>)"

text \<open>
  Modelled from the spec: \<open>getEntityRanges\<close> is imported from \<open>draft-js-utils\<close>. By the
  spec an entity range is a maximal contiguous range of characters with the same entity
  key (or none), and within it a style run is a maximal contiguous range with the same
  set of inline styles. The result lists the entity ranges in order, each with its key
  and its style runs (text and style set).
\<close>

definition getStyleRanges :: "(char \<times> string list) list \<Rightarrow> (string \<times> string list) list" where
  "getStyleRanges chars =
     map (\<lambda>(styleSet, txt). (txt, styleSet))
       (collect_runs (\<lambda>s s'. set s = set s') (map (\<lambda>(c, styleSet). (styleSet, c)) chars))"

definition getEntityRanges ::
  "string \<Rightarrow> CharacterMetadata list \<Rightarrow> (string option \<times> (string \<times> string list) list) list" where
  "getEntityRanges txt charMetaList =
     map (\<lambda>(entityKey, chars). (entityKey, getStyleRanges chars))
       (collect_runs (=)
          (map (\<lambda>i. (getEntity (charMeta_at charMetaList i),
                      (txt ! i, getStyle (charMeta_at charMetaList i))))
             [0..<length txt]))"

text \<open>
  \<open>String.prototype.toUpperCase\<close> on strings of the code units 0 to 255, which are
  the strings here. The code units with an upper-case form are the letters a-z and the
  Latin-1 letters 0xE0 to 0xFE (all but 0xF7, the division sign), which become the code
  unit 0x20 below; 0xDF (sharp s), which becomes the two letters \<open>SS\<close>; and 0xB5 (the
  micro sign) and 0xFF (y with diaeresis), which become U+039C and U+0178. Every other
  code unit is left as it is. The last two results are above 255: the upper-case form
  of a string that has 0xB5 or 0xFF is not a string of code units 0 to 255, and is
  \<open>None\<close> here.
\<close>

definition lower_units :: string where
  "lower_units =
     ''abcdefghijklmnopqrstuvwxyz'' @
     [CHR 0xE0, CHR 0xE1, CHR 0xE2, CHR 0xE3, CHR 0xE4, CHR 0xE5, CHR 0xE6, CHR 0xE7,
      CHR 0xE8, CHR 0xE9, CHR 0xEA, CHR 0xEB, CHR 0xEC, CHR 0xED, CHR 0xEE, CHR 0xEF,
      CHR 0xF0, CHR 0xF1, CHR 0xF2, CHR 0xF3, CHR 0xF4, CHR 0xF5, CHR 0xF6,
      CHR 0xF8, CHR 0xF9, CHR 0xFA, CHR 0xFB, CHR 0xFC, CHR 0xFD, CHR 0xFE]"

definition upper_units :: string where
  "upper_units =
     ''ABCDEFGHIJKLMNOPQRSTUVWXYZ'' @
     [CHR 0xC0, CHR 0xC1, CHR 0xC2, CHR 0xC3, CHR 0xC4, CHR 0xC5, CHR 0xC6, CHR 0xC7,
      CHR 0xC8, CHR 0xC9, CHR 0xCA, CHR 0xCB, CHR 0xCC, CHR 0xCD, CHR 0xCE, CHR 0xCF,
      CHR 0xD0, CHR 0xD1, CHR 0xD2, CHR 0xD3, CHR 0xD4, CHR 0xD5, CHR 0xD6,
      CHR 0xD8, CHR 0xD9, CHR 0xDA, CHR 0xDB, CHR 0xDC, CHR 0xDD, CHR 0xDE]"

definition upper_unit :: "char \<Rightarrow> string option" where
  "upper_unit c =
     (case map_of (zip lower_units upper_units) c of
        Some u \<Rightarrow> Some [u]
      | None \<Rightarrow>
          if c = CHR 0xDF then Some ''SS''
          else if c = CHR 0xB5 \<or> c = CHR 0xFF then None
          else Some [c])"

fun toUpperCase :: "string \<Rightarrow> string option" where
  "toUpperCase [] = Some []"
| "toUpperCase (c # s) =
     (case upper_unit c of
        None \<Rightarrow> None
      | Some u \<Rightarrow> (case toUpperCase s of None \<Rightarrow> None | Some r \<Rightarrow> Some (u @ r)))"

text \<open>Truthiness of a value that is a string, \<open>null\<close> or \<open>undefined\<close>.\<close>

definition truthy :: "string option \<Rightarrow> bool" where
  "truthy v = (case v of None \<Rightarrow> False | Some s \<Rightarrow> s \<noteq> [])"

section \<open>The generator\<close>

datatype error = TypeError | RangeError | OutOfFuel

text \<open>
  The fields the constructor assigns. \<open>entityFormatterMap\<close> and \<open>entityAttributesMap\<close>
  are not among them: they refer to the tables of the module, and are read from
  \<^typ>\<open>Globals\<close>.
\<close>

record MarkupGenerator =
  contentState :: "ContentBlock list"
  options :: Options
  gen_entityGetter :: EntityGetter
  gen_entityAttributesRendererMap :: "EntityAttributesRenderer obj"
  gen_inlineStyles :: StyleMap
  styleOrder :: "string list"

text \<open>The fields \<open>generate()\<close> assigns and the block methods update.\<close>

record GenState =
  "output" :: "string list"
  blocks :: "ContentBlock list"
  totalBlocks :: nat
  currentBlock :: nat
  indentLevel :: int
  wrapperTag :: "string option"

text \<open>
  The constructor. \<open>Object.assign(this[key], options[key])\<close> writes into the object
  the field refers to: for \<open>entityFormatterMap\<close> and \<open>entityAttributesMap\<close> that is the
  table of the module, for \<open>entityAttributesRendererMap\<close> the object \<open>DATA_TO_ATTR\<close>
  has just made. The result is the new generator and the module's state after the call.
\<close>

definition MarkupGenerator_new ::
  "Globals \<Rightarrow> ContentBlock list \<Rightarrow> Options option \<Rightarrow> MarkupGenerator \<times> Globals" where
  "MarkupGenerator_new gl content opts =
     (let opt = (case opts of None \<Rightarrow> no_options | Some given \<Rightarrow> given);
          getter0 = Entity_get gl;
          rendererMap0 = DATA_TO_ATTR;
          gl1 = (case entityFormatterMap opt of
                   None \<Rightarrow> gl
                 | Some m \<Rightarrow> gl\<lparr>ENTITY_FORMATTER_MAP := Object_assign (ENTITY_FORMATTER_MAP gl) m\<rparr>);
          gl2 = (case entityAttributesMap opt of
                   None \<Rightarrow> gl1
                 | Some m \<Rightarrow> gl1\<lparr>ENTITY_ATTR_MAP := Object_assign (ENTITY_ATTR_MAP gl1) m\<rparr>);
          rendererMap = (case entityAttributesRendererMap opt of
                           None \<Rightarrow> rendererMap0
                         | Some m \<Rightarrow> Object_assign rendererMap0 m);
          getter = (case entityGetter opt of None \<Rightarrow> getter0 | Some f \<Rightarrow> f);
          combined = combineOrderedStyles (inlineStyles opt) (DEFAULT_STYLE_MAP, DEFAULT_STYLE_ORDER)
      in (\<lparr>contentState = content, options = opt, gen_entityGetter = getter,
           gen_entityAttributesRendererMap = rendererMap,
           gen_inlineStyles = fst combined, styleOrder = snd combined\<rparr>,
          gl2))"

section \<open>Rendering the content of a block\<close>

text \<open>
  The attributes of an element from a render configuration: normalised, and with the
  \<open>style\<close> attribute added when the configuration has style properties.
\<close>

definition config_attributes :: "StyleToCSS \<Rightarrow> Attributes option \<Rightarrow> StyleDescr option \<Rightarrow> Attributes option" where
  "config_attributes css attrs0 style0 =
     (let attrs = normalizeAttributes attrs0
      in case style0 of
           None \<Rightarrow> attrs
         | Some sty \<Rightarrow>
             (let styleAttr = css sty
              in case attrs of
                   None \<Rightarrow> Some [(''style'', Some styleAttr)]
                 | Some a \<Rightarrow> Some (obj_set ''style'' (Some styleAttr) a)))"

text \<open>
  The loop \<open>for (let styleName of this.styleOrder)\<close> over what is left of the style
  order, with the content built so far. Reading the configuration of a style that
  \<open>inlineStyles\<close> does not have destructures \<open>undefined\<close>, a \<open>TypeError\<close>.
\<close>

fun renderStyles ::
  "StyleToCSS \<Rightarrow> StyleMap \<Rightarrow> string \<Rightarrow> string list \<Rightarrow> string list \<Rightarrow> string \<Rightarrow> error + string" where
  "renderStyles css styles blockType styleSet [] content = Inr content"
| "renderStyles css styles blockType styleSet (styleName # rest) content =
     (if styleName = CODE \<and> blockType = BLOCK_TYPE_CODE
      then renderStyles css styles blockType styleSet rest content
      else if styleName \<in> set styleSet
      then (case map_of styles styleName of
              None \<Rightarrow> Inl TypeError
            | Some config \<Rightarrow>
                (let el = (case element config of None \<Rightarrow> ''span'' | Some e \<Rightarrow> e);
                     attrString = stringifyAttrs (config_attributes css (attributes config) (style config))
                 in renderStyles css styles blockType styleSet rest
                      (''<'' @ el @ attrString @ ''>'' @ content @ ''</'' @ el @ ''>'')))
      else renderStyles css styles blockType styleSet rest content)"

text \<open>An array \<open>map\<close> whose callback may throw: the first throw ends it.\<close>

fun map_throwing :: "('a \<Rightarrow> error + 'b) \<Rightarrow> 'a list \<Rightarrow> error + 'b list" where
  "map_throwing f [] = Inr []"
| "map_throwing f (x # xs) =
     (case f x of
        Inl e \<Rightarrow> Inl e
      | Inr y \<Rightarrow> (case map_throwing f xs of Inl e \<Rightarrow> Inl e | Inr ys \<Rightarrow> Inr (y # ys)))"

text \<open>
  The callback of \<open>entityPieces.map\<close>, in the order of the source. First the content
  of the range: its style runs, each escaped and wrapped, joined.
\<close>

definition renderStylePieces ::
  "StyleToCSS \<Rightarrow> MarkupGenerator \<Rightarrow> string \<Rightarrow> (string \<times> string list) list \<Rightarrow> error + string" where
  "renderStylePieces css g blockType stylePieces =
     (case map_throwing
             (\<lambda>(txt, styleSet).
                renderStyles css (gen_inlineStyles g) blockType styleSet (styleOrder g)
                  (encodeContent txt))
             stylePieces of
        Inl e \<Rightarrow> Inl e
      | Inr parts \<Rightarrow> Inr (js_join [] parts))"

text \<open>\<open>entityKey ? this.entityGetter(entityKey) : null\<close>.\<close>

definition resolveEntity :: "MarkupGenerator \<Rightarrow> string option \<Rightarrow> EntityInstance option" where
  "resolveEntity g entityKey =
     (case entityKey of
        None \<Rightarrow> None
      | Some k \<Rightarrow> if k \<noteq> [] then gen_entityGetter g k else None)"

text \<open>
  The attributes of the entity: from the renderer registered for its type, or else from
  the \<open>DEFAULT\<close> renderer. Calling a renderer the map does not have is a \<open>TypeError\<close>.
\<close>

definition entityAttrs ::
  "Globals \<Rightarrow> MarkupGenerator \<Rightarrow> string \<Rightarrow> EntityInstance \<Rightarrow> error + Attributes option" where
  "entityAttrs gl g entityType ent =
     (case map_of (gen_entityAttributesRendererMap g) entityType of
        Some r \<Rightarrow> Inr (call_renderer gl r entityType ent)
      | None \<Rightarrow>
          (case map_of (gen_entityAttributesRendererMap g) ''DEFAULT'' of
             Some r \<Rightarrow> Inr (call_renderer gl r entityType ent)
           | None \<Rightarrow> Inl TypeError))"

text \<open>
  The rest of the callback. \<open>entityType\<close> is \<open>null\<close> exactly when there is no entity, so
  the guard \<open>!(entityType !== null && this.entityFormatterMap.hasOwnProperty(entityType))\<close>
  returns the content for a missing entity and for a type the formatter table does not
  have. After it come the attributes and the choice between the formatter of the type
  and the \<open>DEFAULT\<close> formatter. The keys of the formatter table are strings of code units
  0 to 255, so an upper-case type that is not such a string (\<open>None\<close>) is no key of it,
  and the guard returns the content.
\<close>

definition formatEntity ::
  "Globals \<Rightarrow> MarkupGenerator \<Rightarrow> string option \<Rightarrow> string \<Rightarrow> error + string option" where
  "formatEntity gl g entityKey content =
     (case resolveEntity g entityKey of
        None \<Rightarrow> Inr (Some content)
      | Some ent \<Rightarrow>
          (case toUpperCase (entity_getType ent) of
             None \<Rightarrow> Inr (Some content)
           | Some entityType \<Rightarrow>
               if \<not> hasOwnProperty (ENTITY_FORMATTER_MAP gl) entityType
               then Inr (Some content)
               else
                 (case entityAttrs gl g entityType ent of
                    Inl e \<Rightarrow> Inl e
                  | Inr attrs \<Rightarrow>
                      (case map_of (ENTITY_FORMATTER_MAP gl) entityType of
                         Some formatter \<Rightarrow>
                           Inr (formatter content (stringifyAttrs attrs) (getData ent))
                       | None \<Rightarrow>
                           (case map_of (ENTITY_FORMATTER_MAP gl) ''DEFAULT'' of
                              Some formatter \<Rightarrow>
                                Inr (formatter content (stringifyAttrs attrs) (getData ent))
                            | None \<Rightarrow> Inl TypeError)))))"

definition renderEntityPiece ::
  "StyleToCSS \<Rightarrow> Globals \<Rightarrow> MarkupGenerator \<Rightarrow> string \<Rightarrow>
   string option \<times> (string \<times> string list) list \<Rightarrow> error + string option" where
  "renderEntityPiece css gl g blockType piece =
     (case piece of (entityKey, stylePieces) \<Rightarrow>
        (case renderStylePieces css g blockType stylePieces of
           Inl e \<Rightarrow> Inl e
         | Inr content \<Rightarrow> formatEntity gl g entityKey content))"

definition renderBlockContent ::
  "StyleToCSS \<Rightarrow> Globals \<Rightarrow> MarkupGenerator \<Rightarrow> ContentBlock \<Rightarrow> error + string" where
  "renderBlockContent css gl g block =
     (let blockType = getType block;
          txt = getText block
      in if txt = [] then Inr BREAK
         else
           (let txt' = preserveWhitespace txt;
                charMetaList = getCharacterList block;
                entityPieces = getEntityRanges txt' charMetaList
            in case map_throwing (renderEntityPiece css gl g blockType) entityPieces of
                 Inl e \<Rightarrow> Inl e
               | Inr pieces \<Rightarrow> Inr (js_join_nullable [] pieces)))"

section \<open>The block state machine\<close>

definition and_then :: "error + 'a \<Rightarrow> ('a \<Rightarrow> error + 'b) \<Rightarrow> error + 'b" where
  "and_then r f = (case r of Inl e \<Rightarrow> Inl e | Inr x \<Rightarrow> f x)"

text \<open>\<open>this.output.push(s)\<close>.\<close>

definition push :: "string \<Rightarrow> GenState \<Rightarrow> GenState" where
  "push s st = st\<lparr>output := output st @ [s]\<rparr>"

text \<open>\<open>INDENT.repeat(n)\<close> throws a \<open>RangeError\<close> for a negative count.\<close>

definition indent :: "GenState \<Rightarrow> error + GenState" where
  "indent st =
     (if indentLevel st < 0 then Inl RangeError
      else Inr (push (concat (replicate (nat (indentLevel st)) INDENT)) st))"

definition openWrapperTag :: "string \<Rightarrow> GenState \<Rightarrow> error + GenState" where
  "openWrapperTag w st =
     and_then (indent (st\<lparr>wrapperTag := Some w\<rparr>))
       (\<lambda>st1. Inr ((push (''<'' @ w @ ''>\<newline>'') st1)\<lparr>indentLevel := indentLevel st1 + 1\<rparr>))"

definition closeWrapperTag :: "GenState \<Rightarrow> error + GenState" where
  "closeWrapperTag st =
     (case wrapperTag st of
        None \<Rightarrow> Inr st
      | Some w \<Rightarrow>
          if w = [] then Inr st
          else and_then (indent (st\<lparr>indentLevel := indentLevel st - 1\<rparr>))
                 (\<lambda>st1. Inr ((push (''</'' @ w @ ''>\<newline>'') st1)\<lparr>wrapperTag := None\<rparr>)))"

definition writeStartTag :: "StyleToCSS \<Rightarrow> MarkupGenerator \<Rightarrow> ContentBlock \<Rightarrow> GenState \<Rightarrow> GenState" where
  "writeStartTag css g block st =
     (let tags = getTags (getType block);
          attrString =
            (case blockStyleFn (options g) of
               Some f \<Rightarrow>
                 (case f block of
                    None \<Rightarrow> stringifyAttrs (config_attributes css None None)
                  | Some config \<Rightarrow>
                      stringifyAttrs (config_attributes css (attributes config) (style config)))
             | None \<Rightarrow> [])
      in fold (\<lambda>tag. push (''<'' @ tag @ attrString @ ''>'')) tags st)"

definition writeEndTag :: "ContentBlock \<Rightarrow> GenState \<Rightarrow> GenState" where
  "writeEndTag block st =
     (let tags = getTags (getType block)
      in case tags of
           [tag] \<Rightarrow> push (''</'' @ tag @ ''>\<newline>'') st
         | _ \<Rightarrow> push (js_join [] (fold (\<lambda>tag out. (''</'' @ tag @ ''>'') # out) tags [])
                        @ ''\<newline>'') st)"

text \<open>\<open>this.blocks[i]\<close>, which is \<open>undefined\<close> past the end.\<close>

definition block_at :: "ContentBlock list \<Rightarrow> nat \<Rightarrow> ContentBlock option" where
  "block_at bs i = (if i < length bs then Some (bs ! i) else None)"

definition getNextBlock :: "GenState \<Rightarrow> ContentBlock option" where
  "getNextBlock st = block_at (blocks st) (currentBlock st + 1)"

text \<open>The renderer the caller registered for a block type, if any.\<close>

definition customRenderer :: "MarkupGenerator \<Rightarrow> string \<Rightarrow> BlockRenderer option" where
  "customRenderer g blockType =
     (case blockRenderers (options g) of
        None \<Rightarrow> None
      | Some renderers \<Rightarrow> map_of renderers blockType)"

text \<open>
  The parts of \<open>processBlock\<close> that make no call back into the state machine, in the
  order of the source: changing the wrapper when the block needs another one,
\<close>

definition switchWrapperTag :: "string option \<Rightarrow> GenState \<Rightarrow> error + GenState" where
  "switchWrapperTag newWrapperTag st =
     (if wrapperTag st \<noteq> newWrapperTag
      then and_then (if truthy (wrapperTag st) then closeWrapperTag st else Inr st)
             (\<lambda>st1. case newWrapperTag of
                       None \<Rightarrow> Inr st1
                     | Some w \<Rightarrow> if w \<noteq> [] then openWrapperTag w st1 else Inr st1)
      else Inr st)"

text \<open>the output of the caller's renderer for the block, \<open>null\<close> when there is none,\<close>

definition customRendererOutput :: "MarkupGenerator \<Rightarrow> ContentBlock \<Rightarrow> string option" where
  "customRendererOutput g block =
     (case customRenderer g (getType block) of
        None \<Rightarrow> None
      | Some renderer \<Rightarrow> renderer block)"

definition writeCustomOutput :: "string \<Rightarrow> GenState \<Rightarrow> GenState" where
  "writeCustomOutput rendered st =
     (push ''\<newline>'' (push rendered st))\<lparr>currentBlock := currentBlock st + 1\<rparr>"

text \<open>
  the look-ahead, which gives the depth of the next block when a list is nested under
  this one,
\<close>

definition nestedDepth :: "ContentBlock \<Rightarrow> GenState \<Rightarrow> int option" where
  "nestedDepth block st =
     (if canHaveDepth (getType block)
      then (case getNextBlock st of
              None \<Rightarrow> None
            | Some nextBlock \<Rightarrow>
                if getDepth nextBlock = getDepth block + 1 then Some (getDepth nextBlock)
                else None)
      else None)"

text \<open>and the assignments before and after the nested blocks are processed.\<close>

definition enterNestedList :: "GenState \<Rightarrow> GenState" where
  "enterNestedList st =
     (let st1 = push ''\<newline>'' st
      in st1\<lparr>wrapperTag := None, indentLevel := indentLevel st1 + 1,
              currentBlock := currentBlock st1 + 1\<rparr>)"

definition leaveNestedList :: "string option \<Rightarrow> GenState \<Rightarrow> GenState" where
  "leaveNestedList thisWrapperTag st =
     st\<lparr>wrapperTag := thisWrapperTag, indentLevel := indentLevel st - 1\<rparr>"

text \<open>
  \<open>processBlock\<close> and \<open>processBlocksAtDepth\<close> call each other, and the loop of the
  latter runs as long as blocks of the given depth follow. The first argument bounds
  the depth of the calls: each call and each round of a loop takes one unit, and
  \<open>OutOfFuel\<close> is the result when none is left. A call on \<open>undefined\<close>
  (\<open>block.getType()\<close> past the end of the blocks) is a \<open>TypeError\<close>.
\<close>

fun processBlock ::
      "nat \<Rightarrow> StyleToCSS \<Rightarrow> Globals \<Rightarrow> MarkupGenerator \<Rightarrow> GenState \<Rightarrow> error + GenState"
  and processBlocksAtDepth ::
      "nat \<Rightarrow> StyleToCSS \<Rightarrow> Globals \<Rightarrow> MarkupGenerator \<Rightarrow> int \<Rightarrow> GenState \<Rightarrow> error + GenState"
  and processBlocksAtDepth_while ::
      "nat \<Rightarrow> StyleToCSS \<Rightarrow> Globals \<Rightarrow> MarkupGenerator \<Rightarrow> int \<Rightarrow> GenState \<Rightarrow> error + GenState"
where
  "processBlock 0 css gl g st = Inl OutOfFuel"
| "processBlock (Suc n) css gl g st =
     (case block_at (blocks st) (currentBlock st) of
        None \<Rightarrow> Inl TypeError
      | Some block \<Rightarrow>
          and_then (switchWrapperTag (getWrapperTag (getType block)) st)
            (\<lambda>st2. and_then (indent st2)
               (\<lambda>st3.
                  case customRendererOutput g block of
                    Some rendered \<Rightarrow> Inr (writeCustomOutput rendered st3)
                  | None \<Rightarrow>
                      (let st4 = writeStartTag css g block st3
                       in and_then (renderBlockContent css gl g block)
                            (\<lambda>content.
                               let st5 = push content st4
                               in case nestedDepth block st5 of
                                    Some depth \<Rightarrow>
                                      and_then
                                        (processBlocksAtDepth n css gl g depth (enterNestedList st5))
                                        (\<lambda>st8. and_then (indent (leaveNestedList (wrapperTag st5) st8))
                                                  (\<lambda>st9. Inr (writeEndTag block st9)))
                                  | None \<Rightarrow>
                                      Inr (writeEndTag block
                                             (st5\<lparr>currentBlock := currentBlock st5 + 1\<rparr>)))))))"
| "processBlocksAtDepth 0 css gl g depth st = Inl OutOfFuel"
| "processBlocksAtDepth (Suc n) css gl g depth st =
     and_then (processBlocksAtDepth_while n css gl g depth st) closeWrapperTag"
| "processBlocksAtDepth_while 0 css gl g depth st = Inl OutOfFuel"
| "processBlocksAtDepth_while (Suc n) css gl g depth st =
     (case block_at (blocks st) (currentBlock st) of
        None \<Rightarrow> Inr st
      | Some block \<Rightarrow>
          if getDepth block = depth
          then and_then (processBlock n css gl g st) (processBlocksAtDepth_while n css gl g depth)
          else Inr st)"

text \<open>The loop of \<open>generate()\<close>.\<close>

fun generate_while ::
  "nat \<Rightarrow> StyleToCSS \<Rightarrow> Globals \<Rightarrow> MarkupGenerator \<Rightarrow> GenState \<Rightarrow> error + GenState" where
  "generate_while 0 css gl g st = Inl OutOfFuel"
| "generate_while (Suc n) css gl g st =
     (if currentBlock st < totalBlocks st
      then and_then (processBlock n css gl g st) (generate_while n css gl g)
      else Inr st)"

text \<open>
  \<open>String.prototype.trim\<close>: the white space and line terminators among the code units
  0..255 are the tab, line feed, vertical tab, form feed, carriage return, space and
  no-break space.
\<close>

definition is_space :: "char \<Rightarrow> bool" where
  "is_space c = (of_char c \<in> {9, 10, 11, 12, 13, 32, 160 :: nat})"

definition trim :: "string \<Rightarrow> string" where
  "trim s = rev (dropWhile is_space (rev (dropWhile is_space s)))"

text \<open>
  \<open>generate()\<close>: the result is the string it returns together with the fields it
  leaves in the generator.
\<close>

definition initial_state :: "MarkupGenerator \<Rightarrow> GenState" where
  "initial_state g =
     \<lparr>output = [], blocks = contentState g, totalBlocks = length (contentState g),
      currentBlock = 0, indentLevel = 0, wrapperTag = None\<rparr>"

definition generate ::
  "nat \<Rightarrow> StyleToCSS \<Rightarrow> Globals \<Rightarrow> MarkupGenerator \<Rightarrow> error + (string \<times> GenState)" where
  "generate fuel css gl g =
     and_then (generate_while fuel css gl g (initial_state g))
       (\<lambda>st. and_then (closeWrapperTag st)
          (\<lambda>st'. Inr (trim (js_join [] (output st')), st')))"

text \<open>
  The exported function: a new generator, then \<open>generate()\<close>. It returns the markup (or
  the error thrown) and the state of the module after the call.
\<close>

definition stateToHTML ::
  "nat \<Rightarrow> StyleToCSS \<Rightarrow> Globals \<Rightarrow> ContentBlock list \<Rightarrow> Options option \<Rightarrow> (error + string) \<times> Globals" where
  "stateToHTML fuel css gl content opts =
     (case MarkupGenerator_new gl content opts of
        (g, gl') \<Rightarrow>
          (case generate fuel css gl' g of
             Inl e \<Rightarrow> (Inl e, gl')
           | Inr (html, st) \<Rightarrow> (Inr html, gl')))"

section \<open>What the specification says, as functions\<close>

text \<open>
  One level of entity substitution in text content: what each code unit of the input
  becomes, on its own.
\<close>

definition escape_content_unit :: "char \<Rightarrow> string" where
  "escape_content_unit x =
     (if x = CHR ''&'' then ''&amp;''
      else if x = CHR ''<'' then ''&lt;''
      else if x = CHR ''>'' then ''&gt;''
      else if x = NBSP then ''&nbsp;''
      else if x = CHR ''\<newline>'' then ''<br>\<newline>''
      else [x])"

text \<open>The same for an attribute value.\<close>

definition escape_attr_unit :: "char \<Rightarrow> string" where
  "escape_attr_unit x =
     (if x = CHR ''&'' then ''&amp;''
      else if x = CHR ''<'' then ''&lt;''
      else if x = CHR ''>'' then ''&gt;''
      else if x = DQUOTE then ''&quot;''
      else [x])"

text \<open>
  The code unit at position \<open>i\<close> after whitespace preservation: a space that is first,
  last or preceded by a space becomes the no-break space.
\<close>

definition preserved_unit :: "string \<Rightarrow> nat \<Rightarrow> char" where
  "preserved_unit str i =
     (if str ! i = CHR '' '' \<and> (i = 0 \<or> i = length str - 1 \<or> str ! (i - 1) = CHR '' '')
      then NBSP else str ! i)"

text \<open>The value the loop of \<open>preserveWhitespace\<close> stores in slot \<open>i\<close>.\<close>

definition preserved_cell :: "string \<Rightarrow> nat \<Rightarrow> string option" where
  "preserved_cell str i =
     (if str ! i = CHR '' '' \<and> (i = 0 \<or> i = length str - 1 \<or> str ! (i - 1) = CHR '' '')
      then Some [NBSP] else Some [str ! i])"


text \<open>The two rows of the initial attribute table, by name.\<close>

definition LINK_ATTR_MAP :: AttrMap where
  "LINK_ATTR_MAP = [(''url'', ''href''), (''rel'', ''rel''), (''target'', ''target''),
                    (''title'', ''title''), (''className'', ''class'')]"

definition IMAGE_ATTR_MAP :: AttrMap where
  "IMAGE_ATTR_MAP = [(''src'', ''src''), (''height'', ''height''), (''width'', ''width''),
               (''alt'', ''alt''), (''className'', ''class'')]"

section \<open>Example documents\<close>

text \<open>
  The text \<open>click\<close>, every character of which carries the entity key \<open>1\<close>, and a
  registry in which that key is a link to \<open>https://x\<close>.
\<close>

definition link_block :: ContentBlock where
  "link_block =
     \<lparr>getType = UNSTYLED, getText = ''click'', getDepth = 0,
      getCharacterList = replicate 5 \<lparr>getStyle = [], getEntity = Some ''1''\<rparr>\<rparr>"

definition link_registry :: EntityGetter where
  "link_registry k =
     (if k = ''1'' then Some \<lparr>entity_getType = ''link'', getData = [(''url'', Some ''https://x'')]\<rparr>
      else None)"

text \<open>
  A style serialiser for the examples, a block of one character under the entity key
  \<open>1\<close>, a registry in which that key is an entity of a given type, a formatter to
  register, and a block whose four characters all carry the same styles.
\<close>

definition css_none :: StyleToCSS where
  "css_none sty = []"

definition entity_block :: ContentBlock where
  "entity_block =
     \<lparr>getType = UNSTYLED, getText = ''x'', getDepth = 0,
      getCharacterList = [\<lparr>getStyle = [], getEntity = Some ''1''\<rparr>]\<rparr>"

definition typed_registry :: "string \<Rightarrow> EntityGetter" where
  "typed_registry ty k =
     (if k = ''1'' then Some \<lparr>entity_getType = ty, getData = [(''data-id'', Some ''7'')]\<rparr>
      else None)"

definition bang_formatter :: EntityFormatter where
  "bang_formatter content attrString entityData = Some (''!'' @ content @ ''!'')"


text \<open>A list item without character metadata.\<close>

definition list_item :: "string \<Rightarrow> int \<Rightarrow> ContentBlock" where
  "list_item t d = \<lparr>getType = UNORDERED_LIST_ITEM, getText = t, getDepth = d, getCharacterList = []\<rparr>"

text \<open>A block of the type \<open>unstyled\<close> without character metadata.\<close>

definition plain_block :: "string \<Rightarrow> ContentBlock" where
  "plain_block t = \<lparr>getType = UNSTYLED, getText = t, getDepth = 0, getCharacterList = []\<rparr>"



section \<open>The entities of a document and the formatters of the options\<close>



section \<open>Invariants of the state machine\<close>




text \<open>The wrapper the field \<open>wrapperTag\<close> holds, as a list of at most one tag.\<close>

definition current_wrapper :: "GenState \<Rightarrow> string list" where
  "current_wrapper st = (case wrapperTag st of None \<Rightarrow> [] | Some w \<Rightarrow> if w = [] then [] else [w])"

text \<open>The indentation level outside the wrapper the field holds.\<close>

definition base_level :: "GenState \<Rightarrow> int" where
  "base_level st = indentLevel st - int (length (current_wrapper st))"



text \<open>
  A generator whose style order names only styles of its style table, and whose
  attributes-renderer map has the \<open>DEFAULT\<close> entry.
\<close>

definition well_configured :: "MarkupGenerator \<Rightarrow> bool" where
  "well_configured g \<longleftrightarrow>
     list_all (\<lambda>name. map_of (gen_inlineStyles g) name \<noteq> None) (styleOrder g) \<and>
     map_of (gen_entityAttributesRendererMap g) ''DEFAULT'' \<noteq> None"


text \<open>The fragment \<open>writeEndTag\<close> pushes: the end tags in reverse order, then a newline.\<close>

definition end_tag_line :: "string \<Rightarrow> string" where
  "end_tag_line blockType =
     js_join [] (rev (map (\<lambda>tag. ''</'' @ tag @ ''>'') (getTags blockType))) @ ''\<newline>''"



text \<open>The start tags and the end tags of a block type, without attributes.\<close>

definition start_tags :: "string \<Rightarrow> string" where
  "start_tags blockType = concat (map (\<lambda>tag. ''<'' @ tag @ ''>'') (getTags blockType))"

definition end_tags :: "string \<Rightarrow> string" where
  "end_tags blockType = concat (rev (map (\<lambda>tag. ''</'' @ tag @ ''>'') (getTags blockType)))"

section \<open>Splitting, joining and escaping\<close>

lemma js_split_nonempty: "js_split c s \<noteq> []"
  by (induction s) (auto split: list.splits)

lemma js_join_Nil_Cons: "ps \<noteq> [] \<Longrightarrow> js_join sep ([] # ps) = sep @ js_join sep ps"
  by (cases ps) auto

lemma js_join_empty_sep: "js_join [] ps = concat ps"
  by (induction "[] :: string" ps rule: js_join.induct) auto

text \<open>Splitting at a code unit and joining with \<open>r\<close> replaces every occurrence by \<open>r\<close>.\<close>

lemma js_join_split:
  "js_join r (js_split c s) = concat (map (\<lambda>x. if x = c then r else [x]) s)"
proof (induction s)
  case Nil
  show ?case by simp
next
  case (Cons x xs)
  obtain p ps where sp: "js_split c xs = p # ps"
    using js_split_nonempty [of c xs] by (cases "js_split c xs") auto
  show ?case
  proof (cases "x = c")
    case True
    then show ?thesis using Cons sp by (simp add: js_join_Nil_Cons)
  next
    case False
    then show ?thesis using Cons sp by (cases ps) auto
  qed
qed

lemma concat_map_concat_map:
  "concat (map f (concat (map g s))) = concat (map (\<lambda>x. concat (map f (g x))) s)"
  by (induction s) auto

lemma encodeContent_units: "encodeContent s = concat (map escape_content_unit s)"
  unfolding encodeContent_def js_join_split concat_map_concat_map
  apply (rule arg_cong [where f = concat])
  apply (rule map_cong [OF refl])
  apply (simp add: escape_content_unit_def NBSP_def BREAK_def)
  done

lemma encodeAttr_units: "encodeAttr s = concat (map escape_attr_unit s)"
  unfolding encodeAttr_def js_join_split concat_map_concat_map
  apply (rule arg_cong [where f = concat])
  apply (rule map_cong [OF refl])
  apply (simp add: escape_attr_unit_def DQUOTE_def)
  done

section \<open>Whitespace preservation, position by position\<close>

lemma preserved_cell_unit: "preserved_cell str i = Some [preserved_unit str i]"
  by (auto simp: preserved_cell_def preserved_unit_def)

lemma preserveWhitespace_loop_step:
  "i < length str \<Longrightarrow>
   preserveWhitespace_loop str i newText =
     preserveWhitespace_loop str (i + 1) (newText[i := preserved_cell str i])"
  by (subst preserveWhitespace_loop.simps) (simp only: preserved_cell_def if_True)

lemma preserveWhitespace_loop_done:
  "\<not> i < length str \<Longrightarrow> preserveWhitespace_loop str i newText = newText"
  by (subst preserveWhitespace_loop.simps) (simp only: if_False)

text \<open>
  Started at \<open>i\<close>, the loop keeps the first \<open>i\<close> slots and fills every later one.
\<close>

lemma preserveWhitespace_loop_result:
  "length newText = length str \<Longrightarrow> i \<le> length str \<Longrightarrow>
   preserveWhitespace_loop str i newText =
     take i newText @ map (preserved_cell str) [i..<length str]"
proof (induction str i newText rule: preserveWhitespace_loop.induct)
  case (1 str i newText)
  show ?case
  proof (cases "i < length str")
    case True
    let ?v = "preserved_cell str i"
    have ih: "preserveWhitespace_loop str (i + 1) (newText[i := ?v]) =
              take (i + 1) (newText[i := ?v]) @ map (preserved_cell str) [i + 1..<length str]"
      using "1.IH" [OF True, folded preserved_cell_def] "1.prems" True by simp
    have tk: "take (i + 1) (newText[i := ?v]) = take i newText @ [?v]"
      using True "1.prems" by (simp add: take_Suc_conv_app_nth)
    have up: "[i..<length str] = i # [i + 1..<length str]"
      using True by (simp add: upt_conv_Cons)
    show ?thesis unfolding preserveWhitespace_loop_step [OF True] ih tk up by simp
  next
    case False
    then have "i = length str" using "1.prems" by simp
    then show ?thesis using "1.prems" preserveWhitespace_loop_done [OF False] by simp
  qed
qed

lemma preserveWhitespace_map:
  "preserveWhitespace str = map (preserved_unit str) [0..<length str]"
proof -
  have "preserveWhitespace_loop str 0 (replicate (length str) None) =
        map (\<lambda>j. Some [preserved_unit str j]) [0..<length str]"
    using preserveWhitespace_loop_result [of "replicate (length str) None" str 0]
    by (simp add: preserved_cell_unit)
  then show ?thesis
    by (simp add: preserveWhitespace_def js_join_nullable_def js_join_empty_sep comp_def
        concat_map_singleton)
qed

lemma length_preserveWhitespace: "length (preserveWhitespace str) = length str"
  by (simp add: preserveWhitespace_map)

lemma preserveWhitespace_eq_Nil: "preserveWhitespace str = [] \<longleftrightarrow> str = []"
  using length_preserveWhitespace [of str] by (metis length_0_conv)

section \<open>Entity ranges and style runs of uniform text\<close>

lemma collect_runs_uniform:
  "cs \<noteq> [] \<Longrightarrow> same t t \<Longrightarrow> collect_runs same (map (\<lambda>c. (t, c)) cs) = [(t, cs)]"
proof (induction cs)
  case Nil
  then show ?case by simp
next
  case (Cons c cs)
  then show ?case by (cases "cs = []") auto
qed

lemma map_nth_upt: "map (\<lambda>i. f (xs ! i)) [0..<length xs] = map f xs"
proof -
  have "map (\<lambda>i. f (xs ! i)) [0..<length xs] = map f (map ((!) xs) [0..<length xs])"
    by (simp add: comp_def)
  then show ?thesis by (simp only: map_nth)
qed

text \<open>A text whose characters all carry the same styles and the same entity key is one
  entity range with one style run.\<close>

lemma getEntityRanges_uniform:
  assumes "str \<noteq> []"
  shows "getEntityRanges str (replicate (length str) \<lparr>getStyle = ss, getEntity = k\<rparr>) =
         [(k, [(str, ss)])]"
proof -
  let ?m = "\<lparr>getStyle = ss, getEntity = k\<rparr>"
  have at: "\<And>i. i < length str \<Longrightarrow> charMeta_at (replicate (length str) ?m) i = ?m"
    by (simp add: charMeta_at_def)
  have "map (\<lambda>i. (getEntity (charMeta_at (replicate (length str) ?m) i),
               (str ! i, getStyle (charMeta_at (replicate (length str) ?m) i))))
          [0..<length str] =
        map (\<lambda>i. (k, (str ! i, ss))) [0..<length str]"
    by (rule map_cong [OF refl]) (simp add: at)
  also have "\<dots> = map (\<lambda>c. (k, c)) (map (\<lambda>c. (c, ss)) str)"
    using map_nth_upt [of "\<lambda>c. (k, (c, ss))" str] by (simp add: comp_def)
  finally have pieces:
    "map (\<lambda>i. (getEntity (charMeta_at (replicate (length str) ?m) i),
               (str ! i, getStyle (charMeta_at (replicate (length str) ?m) i))))
          [0..<length str] = map (\<lambda>c. (k, c)) (map (\<lambda>c. (c, ss)) str)" .
  have runs: "collect_runs (=) (map (\<lambda>c. (k, c)) (map (\<lambda>c. (c, ss)) str)) =
              [(k, map (\<lambda>c. (c, ss)) str)]"
    using assms by (intro collect_runs_uniform) auto
  have styles: "getStyleRanges (map (\<lambda>c. (c, ss)) str) = [(str, ss)]"
    using assms collect_runs_uniform [of str "\<lambda>s s'. set s = set s'" ss]
    by (simp add: getStyleRanges_def comp_def)
  show ?thesis
    unfolding getEntityRanges_def pieces runs by (simp add: styles)
qed

lemma getEntityRanges_no_metadata:
  assumes "str \<noteq> []"
  shows "getEntityRanges str [] = [(None, [(str, [])])]"
proof -
  let ?ss = "[] :: string list"
  let ?k = "None :: string option"
  have at: "\<And>i. charMeta_at [] i = \<lparr>getStyle = ?ss, getEntity = ?k\<rparr>"
    by (simp add: charMeta_at_def)
  have pieces: "map (\<lambda>i. (getEntity (charMeta_at [] i), (str ! i, getStyle (charMeta_at [] i))))
          [0..<length str] = map (\<lambda>c. (?k, c)) (map (\<lambda>c. (c, ?ss)) str)"
    using map_nth_upt [of "\<lambda>c. (?k, (c, ?ss))" str] by (simp add: comp_def at)
  have runs: "collect_runs (=) (map (\<lambda>c. (?k, c)) (map (\<lambda>c. (c, ?ss)) str)) =
              [(?k, map (\<lambda>c. (c, ?ss)) str)]"
    using assms by (intro collect_runs_uniform) auto
  have styles: "getStyleRanges (map (\<lambda>c. (c, ?ss)) str) = [(str, ?ss)]"
    using assms collect_runs_uniform [of str "\<lambda>s s'. set s = set s'" ?ss]
    by (simp add: getStyleRanges_def comp_def)
  show ?thesis
    unfolding getEntityRanges_def pieces runs by (simp add: styles)
qed

lemma renderStyles_no_styles:
  "renderStyles css styles blockType [] order content = Inr content"
  by (induction order) auto




lemma renderBlockContent_uniform:
  assumes "getText b \<noteq> []"
    and "getCharacterList b = replicate (length (getText b)) \<lparr>getStyle = ss, getEntity = k\<rparr>"
  shows "renderBlockContent css gl g b =
     (case renderStyles css (gen_inlineStyles g) (getType b) ss (styleOrder g)
             (encodeContent (preserveWhitespace (getText b))) of
        Inl e \<Rightarrow> Inl e
      | Inr content \<Rightarrow>
          (case formatEntity gl g k content of
             Inl e \<Rightarrow> Inl e
           | Inr piece \<Rightarrow> Inr (case piece of None \<Rightarrow> [] | Some p \<Rightarrow> p)))"
proof -
  have ne: "preserveWhitespace (getText b) \<noteq> []"
    using assms(1) by (simp add: preserveWhitespace_eq_Nil)
  have ranges: "getEntityRanges (preserveWhitespace (getText b)) (getCharacterList b) =
        [(k, [(preserveWhitespace (getText b), ss)])]"
    using getEntityRanges_uniform [OF ne, of ss k] assms(2)
    by (simp add: length_preserveWhitespace)
  show ?thesis
    using assms(1)
    by (simp add: renderBlockContent_def Let_def ranges renderEntityPiece_def
        renderStylePieces_def js_join_nullable_def split: sum.splits option.splits)
qed


text \<open>
  The upper-case form of every code unit, by its number: the table of \<open>upper_unit\<close> is
  the shift by 32 on 97 to 122 and on 224 to 254 without 247, 223 becomes 83 83, and 181
  and 255 have no form below 256.
\<close>

lemma upper_unit_code_units:
  "map_option (map of_char) (upper_unit c) =
     (let n = of_char c :: nat
      in if (97 \<le> n \<and> n \<le> 122) \<or> (224 \<le> n \<and> n \<le> 254 \<and> n \<noteq> 247) then Some [n - 32]
         else if n = 223 then Some [83, 83]
         else if n = 181 \<or> n = 255 then None
         else Some [n])"
proof (cases c)
  case (Char b0 b1 b2 b3 b4 b5 b6 b7)
  show ?thesis
    unfolding Char
    by (cases b0; cases b1; cases b2; cases b3; cases b4; cases b5; cases b6; cases b7;
        simp add: upper_unit_def lower_units_def upper_units_def)
qed

lemma toUpperCase_link: "toUpperCase ''link'' = Some ''LINK''"
  by (simp add: upper_unit_def lower_units_def upper_units_def)

lemma MarkupGenerator_new_default:
  "MarkupGenerator_new gl content None =
     (\<lparr>contentState = content, options = no_options, gen_entityGetter = Entity_get gl,
       gen_entityAttributesRendererMap = DATA_TO_ATTR,
       gen_inlineStyles = DEFAULT_STYLE_MAP, styleOrder = DEFAULT_STYLE_ORDER\<rparr>, gl)"
  by (simp add: MarkupGenerator_new_def Let_def no_options_def combineOrderedStyles_def)

section \<open>Plain text through the pipeline\<close>

lemma formatEntity_no_key: "formatEntity gl g None content = Inr (Some content)"
  by (simp add: formatEntity_def resolveEntity_def)

lemma renderBlockContent_plain:
  assumes "getText b \<noteq> []" and "getCharacterList b = []"
  shows "renderBlockContent css gl g b = Inr (encodeContent (preserveWhitespace (getText b)))"
proof -
  have ne: "preserveWhitespace (getText b) \<noteq> []"
    using assms(1) by (simp add: preserveWhitespace_eq_Nil)
  show ?thesis
    using assms
    by (simp add: renderBlockContent_def Let_def getEntityRanges_no_metadata [OF ne]
        renderEntityPiece_def renderStylePieces_def renderStyles_no_styles
        formatEntity_no_key js_join_nullable_def)
qed

lemma preserveWhitespace_inner: "preserveWhitespace ''a  b'' = [CHR ''a'', CHR '' '', NBSP, CHR ''b'']"
  by (simp add: preserveWhitespace_map preserved_unit_def upt_rec)

lemma preserveWhitespace_boundary: "preserveWhitespace '' a '' = [NBSP, CHR ''a'', NBSP]"
  by (simp add: preserveWhitespace_map preserved_unit_def upt_rec)

text \<open>
  C7. \<open>preserveWhitespace\<close> keeps the length of the text and replaces by the no-break
  space exactly the spaces that are the first character, the last character, or preceded
  by a space; every other position is unchanged. In \<open>a  b\<close> the second of the two
  spaces is the one converted, a single leading or trailing space is converted, and the
  text \<open>a  b\<close> renders as \<open>a &nbsp;b\<close>.
\<close>

theorem preserveWhitespace_exactly:
  "length (preserveWhitespace str) = length str \<and>
   (\<forall>i < length str.
      preserveWhitespace str ! i =
        (if str ! i = CHR '' '' \<and> (i = 0 \<or> i = length str - 1 \<or> str ! (i - 1) = CHR '' '')
         then NBSP else str ! i)) \<and>
   preserveWhitespace ''a  b'' = [CHR ''a'', CHR '' '', NBSP, CHR ''b''] \<and>
   preserveWhitespace '' a '' = [NBSP, CHR ''a'', NBSP] \<and>
   renderBlockContent css gl g
     \<lparr>getType = ty, getText = ''a  b'', getDepth = d, getCharacterList = []\<rparr> = Inr ''a &nbsp;b''"
proof -
  have general: "\<forall>i < length str. preserveWhitespace str ! i = preserved_unit str i"
    by (simp add: preserveWhitespace_map)
  have rendered: "renderBlockContent css gl g
     \<lparr>getType = ty, getText = ''a  b'', getDepth = d, getCharacterList = []\<rparr> = Inr ''a &nbsp;b''"
    by (subst renderBlockContent_plain)
       (simp_all add: preserveWhitespace_inner encodeContent_units escape_content_unit_def NBSP_def)
  show ?thesis
    using general rendered
    by (simp add: length_preserveWhitespace preserved_unit_def preserveWhitespace_inner
        preserveWhitespace_boundary)
qed

theorem preserveWhitespace_exactly_witness:
  "preserveWhitespace ''a  b'' ! 0 = CHR ''a'' \<and> preserveWhitespace ''a  b'' ! 1 = CHR '' '' \<and>
   preserveWhitespace ''a  b'' ! 2 = NBSP \<and> preserveWhitespace ''a  b'' ! 3 = CHR ''b'' \<and>
   length (preserveWhitespace ''a  b'') = 4"
  using preserveWhitespace_exactly [of "''a  b''"] by (simp add: NBSP_def)



section \<open>Objects as maps\<close>

lemma map_of_obj_insert:
  "map_of ob k = None \<Longrightarrow> map_of (obj_insert k v ob) = (map_of ob)(k \<mapsto> v)"
proof (induction ob)
  case Nil
  show ?case by simp
next
  case (Cons p ob)
  obtain k' v' where p: "p = (k', v')" by (cases p)
  from Cons.prems p have ne: "k \<noteq> k'" and rest: "map_of ob k = None"
    by (auto split: if_splits)
  have ih: "map_of (obj_insert k v ob) = (map_of ob)(k \<mapsto> v)"
    by (rule Cons.IH [OF rest])
  show ?case
    unfolding p using ne ih
    by (auto simp: fun_eq_iff split: option.splits)
qed

lemma map_of_update_in_place:
  "map_of (map (\<lambda>(k', v'). if k' = k then (k', v) else (k', v')) ob) =
     (if map_of ob k = None then map_of ob else (map_of ob)(k \<mapsto> v))"
  by (induction ob) (auto simp: fun_eq_iff)

lemma map_of_obj_set: "map_of (obj_set k v ob) = (map_of ob)(k \<mapsto> v)"
  by (simp add: obj_set_def hasOwnProperty_def map_of_update_in_place map_of_obj_insert)

lemma hasOwnProperty_obj_set:
  "hasOwnProperty (obj_set k v ob) k' \<longleftrightarrow> k' = k \<or> hasOwnProperty ob k'"
  by (simp add: hasOwnProperty_def map_of_obj_set)

lemma map_of_Object_assign:
  "map_of (Object_assign target source) = map_of target ++ map_of (rev source)"
  unfolding Object_assign_def
proof (induction source arbitrary: target)
  case Nil
  show ?case by simp
next
  case (Cons p source)
  obtain k v where p: "p = (k, v)" by (cases p)
  show ?case
    unfolding p by (simp add: Cons.IH map_of_obj_set fun_eq_iff map_add_def split: option.splits)
qed


section \<open>The default attributes of an entity\<close>

text \<open>A data key of the \<open>data-\<close> pattern that the table neither maps nor maps to keeps its value.\<close>

lemma DATA_TO_ATTR_loop_data_key:
  assumes "DATA_ATTRIBUTE_test k" and "map_of am k = None"
    and "\<And>s. map_of am s \<noteq> Some k"
  shows "distinct (map fst data) \<Longrightarrow>
         map_of (DATA_TO_ATTR_loop am data attrs) k =
           (case map_of data k of Some v \<Rightarrow> Some v | None \<Rightarrow> map_of attrs k)"
proof (induction data arbitrary: attrs)
  case Nil
  show ?case by simp
next
  case (Cons p data)
  obtain dk dv where p: "p = (dk, dv)" by (cases p)
  from Cons.prems p have d: "distinct (map fst data)" and fresh: "map_of data dk = None"
    by (auto simp: map_of_eq_None_iff)
  show ?case
  proof (cases "map_of am dk")
    case (Some ak)
    then have "ak \<noteq> k" "dk \<noteq> k" using assms by auto
    then show ?thesis
      unfolding p using Some Cons.IH [OF d]
      by (simp add: map_of_obj_set split: option.splits)
  next
    case None
    show ?thesis
    proof (cases "DATA_ATTRIBUTE_test dk")
      case True
      then show ?thesis
        unfolding p using None fresh Cons.IH [OF d]
        by (auto simp: map_of_obj_set split: option.splits)
    next
      case False
      then have "dk \<noteq> k" using assms(1) by auto
      then show ?thesis
        unfolding p using None False Cons.IH [OF d] by simp
    qed
  qed
qed

text \<open>An attribute that exactly one data key is mapped to takes the value of that key.\<close>

lemma DATA_TO_ATTR_loop_mapped_key:
  assumes "map_of am s = Some a" and "\<And>s'. map_of am s' = Some a \<Longrightarrow> s' = s"
    and "\<not> DATA_ATTRIBUTE_test a"
  shows "distinct (map fst data) \<Longrightarrow>
         map_of (DATA_TO_ATTR_loop am data attrs) a =
           (case map_of data s of Some v \<Rightarrow> Some v | None \<Rightarrow> map_of attrs a)"
proof (induction data arbitrary: attrs)
  case Nil
  show ?case by simp
next
  case (Cons p data)
  obtain dk dv where p: "p = (dk, dv)" by (cases p)
  from Cons.prems p have d: "distinct (map fst data)" and fresh: "map_of data dk = None"
    by (auto simp: map_of_eq_None_iff)
  show ?case
  proof (cases "map_of am dk")
    case (Some ak)
    show ?thesis
    proof (cases "dk = s")
      case True
      then have "ak = a" using Some assms(1) by simp
      then show ?thesis
        unfolding p using Some True fresh Cons.IH [OF d]
        by (simp add: map_of_obj_set split: option.splits)
    next
      case False
      then have "ak \<noteq> a" using Some assms(2) by auto
      then show ?thesis
        unfolding p using Some False Cons.IH [OF d]
        by (simp add: map_of_obj_set split: option.splits)
    qed
  next
    case None
    then have ne: "dk \<noteq> s" using assms(1) by auto
    show ?thesis
    proof (cases "DATA_ATTRIBUTE_test dk")
      case True
      then have "dk \<noteq> a" using assms(3) by auto
      then show ?thesis
        unfolding p using None True ne Cons.IH [OF d]
        by (simp add: map_of_obj_set split: option.splits)
    next
      case False
      then show ?thesis
        unfolding p using None ne Cons.IH [OF d] by simp
    qed
  qed
qed

lemma data_key_prefix: "DATA_ATTRIBUTE_test k \<Longrightarrow> take 5 k = ''data-''"
  by (simp add: DATA_ATTRIBUTE_test_def)

lemma initial_table_cases:
  assumes "map_of initial_ENTITY_ATTR_MAP ty = Some am"
  shows "am = LINK_ATTR_MAP \<or> am = IMAGE_ATTR_MAP"
proof -
  have "(ty, am) \<in> set initial_ENTITY_ATTR_MAP"
    by (rule map_of_SomeD [OF assms])
  then show ?thesis
    by (auto simp: initial_ENTITY_ATTR_MAP_def LINK_ATTR_MAP_def IMAGE_ATTR_MAP_def)
qed

lemma data_key_not_literal:
  assumes "DATA_ATTRIBUTE_test k"
  shows "k \<notin> {''url'', ''rel'', ''target'', ''title'', ''className'', ''href'', ''class'',
               ''src'', ''height'', ''width'', ''alt''}"
proof
  assume "k \<in> {''url'', ''rel'', ''target'', ''title'', ''className'', ''href'', ''class'',
               ''src'', ''height'', ''width'', ''alt''}"
  then have "take 5 k \<noteq> ''data-''"
    by (elim insertE emptyE) simp_all
  then show False using data_key_prefix [OF assms] by simp
qed

lemma data_key_not_in_tables:
  assumes "DATA_ATTRIBUTE_test k"
  shows "map_of LINK_ATTR_MAP k = None" "map_of LINK_ATTR_MAP s \<noteq> Some k"
    "map_of IMAGE_ATTR_MAP k = None" "map_of IMAGE_ATTR_MAP s \<noteq> Some k"
proof -
  note nl = data_key_not_literal [OF assms]
  show "map_of LINK_ATTR_MAP k = None"
    using nl by (simp add: map_of_eq_None_iff LINK_ATTR_MAP_def)
  show "map_of IMAGE_ATTR_MAP k = None"
    using nl by (simp add: map_of_eq_None_iff IMAGE_ATTR_MAP_def)
  show "map_of LINK_ATTR_MAP s \<noteq> Some k"
  proof
    assume "map_of LINK_ATTR_MAP s = Some k"
    then have "(s, k) \<in> set LINK_ATTR_MAP" by (rule map_of_SomeD)
    then show False using nl by (auto simp: LINK_ATTR_MAP_def)
  qed
  show "map_of IMAGE_ATTR_MAP s \<noteq> Some k"
  proof
    assume "map_of IMAGE_ATTR_MAP s = Some k"
    then have "(s, k) \<in> set IMAGE_ATTR_MAP" by (rule map_of_SomeD)
    then show False using nl by (auto simp: IMAGE_ATTR_MAP_def)
  qed
qed

lemma default_attrs_data_key:
  assumes "DATA_ATTRIBUTE_test k" and "distinct (map fst (getData ent))"
  shows "map_of (DATA_TO_ATTR_DEFAULT initial_ENTITY_ATTR_MAP ty ent) k = map_of (getData ent) k"
proof (cases "map_of initial_ENTITY_ATTR_MAP ty")
  case None
  then show ?thesis
    using DATA_TO_ATTR_loop_data_key [OF assms(1), of "[]" "getData ent" "[]"] assms(2)
    by (simp add: DATA_TO_ATTR_DEFAULT_def split: option.splits)
next
  case (Some am)
  from initial_table_cases [OF Some] have
    "map_of am k = None \<and> (\<forall>s. map_of am s \<noteq> Some k)"
    using data_key_not_in_tables [OF assms(1)] by auto
  then show ?thesis
    using DATA_TO_ATTR_loop_data_key [OF assms(1), of am "getData ent" "[]"] assms(2) Some
    by (simp add: DATA_TO_ATTR_DEFAULT_def split: option.splits)
qed

lemma default_attrs_link_href:
  assumes "distinct (map fst (getData ent))"
  shows "map_of (DATA_TO_ATTR_DEFAULT initial_ENTITY_ATTR_MAP LINK ent) ''href'' =
         map_of (getData ent) ''url''"
proof -
  have tbl: "map_of initial_ENTITY_ATTR_MAP LINK = Some LINK_ATTR_MAP"
    by (simp add: initial_ENTITY_ATTR_MAP_def LINK_ATTR_MAP_def)
  have a: "map_of LINK_ATTR_MAP ''url'' = Some ''href''"
    by (simp add: LINK_ATTR_MAP_def)
  have b: "\<And>s'. map_of LINK_ATTR_MAP s' = Some ''href'' \<Longrightarrow> s' = ''url''"
  proof -
    fix s' assume "map_of LINK_ATTR_MAP s' = Some ''href''"
    then have "(s', ''href'') \<in> set LINK_ATTR_MAP" by (rule map_of_SomeD)
    then show "s' = ''url''" by (simp add: LINK_ATTR_MAP_def)
  qed
  have c: "\<not> DATA_ATTRIBUTE_test ''href''"
    by (simp add: DATA_ATTRIBUTE_test_def)
  show ?thesis
    using DATA_TO_ATTR_loop_mapped_key [OF a b c assms, of "[]"]
    by (simp add: DATA_TO_ATTR_DEFAULT_def tbl split: option.splits)
qed

section \<open>Entities\<close>

lemma entity_block_uniform:
  "getText entity_block \<noteq> []"
  "getCharacterList entity_block =
     replicate (length (getText entity_block)) \<lparr>getStyle = [], getEntity = Some ''1''\<rparr>"
  by (simp_all add: entity_block_def)

lemma preserveWhitespace_x: "preserveWhitespace ''x'' = ''x''"
  by (simp add: preserveWhitespace_map preserved_unit_def upt_rec)

lemma entity_block_content:
  "renderBlockContent css gl g entity_block =
     (case formatEntity gl g (Some ''1'') ''x'' of
        Inl e \<Rightarrow> Inl e
      | Inr piece \<Rightarrow> Inr (case piece of None \<Rightarrow> [] | Some p \<Rightarrow> p))"
  unfolding renderBlockContent_uniform [OF entity_block_uniform]
  by (simp add: entity_block_def preserveWhitespace_x renderStyles_no_styles encodeContent_units
      escape_content_unit_def NBSP_def)

lemmas entity_eval =
  formatEntity_def resolveEntity_def initial_globals_def typed_registry_def upper_unit_def
  lower_units_def upper_units_def hasOwnProperty_def initial_ENTITY_FORMATTER_MAP_def entityAttrs_def
  DATA_TO_ATTR_def call_renderer_def DATA_TO_ATTR_DEFAULT_def initial_ENTITY_ATTR_MAP_def
  obj_set_def stringifyAttrs_def encodeAttr_units escape_attr_unit_def DQUOTE_def
  DATA_ATTRIBUTE_test_def data_attr_char_def is_digit_def

text \<open>
  C1 says that an entity whose type has no formatter is wrapped in a \<open>span\<close> carrying
  its attributes. On the block of one character \<open>x\<close> under an entity of the type
  \<open>mention\<close> (data \<open>data-id = 7\<close>), with the default configuration, the code
  returns the bare content \<open>x\<close>: the guard before the dispatch returns early.
\<close>

theorem unregistered_type_is_not_wrapped:
  "renderBlockContent css_none (initial_globals (typed_registry ''mention''))
     (fst (MarkupGenerator_new (initial_globals (typed_registry ''mention'')) [entity_block] None))
     entity_block = Inr ''x''"
  unfolding entity_block_content MarkupGenerator_new_default
  by (simp add: entity_eval)


lemma link_example:
  "renderBlockContent css (initial_globals link_registry)
     (fst (MarkupGenerator_new (initial_globals link_registry) [link_block] None)) link_block =
   Inr (''<a href='' @ [DQUOTE] @ ''https://x'' @ [DQUOTE] @ ''>click</a>'')"
proof -
  have nonempty: "getText link_block \<noteq> []" by (simp add: link_block_def)
  have cl: "getCharacterList link_block =
      replicate (length (getText link_block)) \<lparr>getStyle = [], getEntity = Some ''1''\<rparr>"
    by (simp add: link_block_def eval_nat_numeral)
  have pw: "preserveWhitespace ''click'' = ''click''"
    by (simp add: preserveWhitespace_map preserved_unit_def upt_rec)
  show ?thesis
    unfolding renderBlockContent_uniform [OF nonempty cl] MarkupGenerator_new_default
    by (simp add: link_block_def pw renderStyles_no_styles encodeContent_units
        escape_content_unit_def NBSP_def entity_eval link_registry_def)
qed

text \<open>
  C6. The text \<open>click\<close> under a link entity with the data \<open>url = https://x\<close> renders,
  with the default configuration, as the anchor with that \<open>href\<close>. For the default
  attribute resolution in general: the \<open>href\<close> of a link is the \<open>url\<close> of its data,
  and a data key of the \<open>data-\<close> pattern is passed through with its value, whatever
  the type of the entity.
\<close>

theorem link_renders_as_anchor:
  "renderBlockContent css (initial_globals link_registry)
     (fst (MarkupGenerator_new (initial_globals link_registry) [link_block] None)) link_block =
     Inr (''<a href='' @ [DQUOTE] @ ''https://x'' @ [DQUOTE] @ ''>click</a>'') \<and>
   (distinct (map fst (getData ent)) \<longrightarrow>
      map_of (DATA_TO_ATTR_DEFAULT initial_ENTITY_ATTR_MAP LINK ent) ''href'' =
        map_of (getData ent) ''url'' \<and>
      (\<forall>k ty. DATA_ATTRIBUTE_test k \<longrightarrow>
         map_of (DATA_TO_ATTR_DEFAULT initial_ENTITY_ATTR_MAP ty ent) k = map_of (getData ent) k))"
  using link_example default_attrs_link_href default_attrs_data_key by blast

theorem link_renders_as_anchor_witness:
  "map_of (DATA_TO_ATTR_DEFAULT initial_ENTITY_ATTR_MAP LINK
      \<lparr>entity_getType = LINK, getData = [(''url'', Some ''https://x''), (''data-id'', Some ''7'')]\<rparr>)
      ''href'' = Some (Some ''https://x'') \<and>
   map_of (DATA_TO_ATTR_DEFAULT initial_ENTITY_ATTR_MAP LINK
      \<lparr>entity_getType = LINK, getData = [(''url'', Some ''https://x''), (''data-id'', Some ''7'')]\<rparr>)
      ''data-id'' = Some (Some ''7'') \<and>
   DATA_ATTRIBUTE_test ''data-id''"
proof -
  let ?e = "\<lparr>entity_getType = LINK, getData = [(''url'', Some ''https://x''), (''data-id'', Some ''7'')]\<rparr>"
  have d: "distinct (map fst (getData ?e))" by simp
  have t: "DATA_ATTRIBUTE_test ''data-id''"
    by (simp add: DATA_ATTRIBUTE_test_def data_attr_char_def is_digit_def)
  show ?thesis
    using link_renders_as_anchor [of css_none ?e] d t by simp
qed


section \<open>Inline styles\<close>





section \<open>Dispatch to the formatters\<close>

lemma entityAttrs_formatter_map [simp]:
  "entityAttrs (gl\<lparr>ENTITY_FORMATTER_MAP := fm\<rparr>) g ty ent = entityAttrs gl g ty ent"
  by (simp add: entityAttrs_def call_renderer_def split: option.splits EntityAttributesRenderer.splits)









section \<open>Empty blocks\<close>

lemma renderBlockContent_empty:
  "getText b = [] \<Longrightarrow> renderBlockContent css gl g b = Inr BREAK"
  by (simp add: renderBlockContent_def)

section \<open>Running the state machine\<close>

lemmas machine_eval =
  generate_def initial_state_def and_then_def switchWrapperTag_def openWrapperTag_def
  closeWrapperTag_def indent_def push_def writeStartTag_def writeEndTag_def block_at_def
  getNextBlock_def customRenderer_def customRendererOutput_def writeCustomOutput_def
  nestedDepth_def enterNestedList_def leaveNestedList_def truthy_def INDENT_def

lemma list_item_sel [simp]: "getType (list_item t d) = UNORDERED_LIST_ITEM" "getDepth (list_item t d) = d"
  "getText (list_item t d) = t" "getCharacterList (list_item t d) = []"
  by (simp_all add: list_item_def)

lemma list_item_content: "t \<noteq> [] \<Longrightarrow> renderBlockContent css gl g (list_item t d) = Inr (encodeContent (preserveWhitespace t))"
  by (simp add: renderBlockContent_plain)

lemma no_options_sel [simp]:
  "blockRenderers no_options = None" "blockStyleFn no_options = None"
  "inlineStyles no_options = None" "entityGetter no_options = None"
  "entityFormatterMap no_options = None" "entityAttributesMap no_options = None"
  "entityAttributesRendererMap no_options = None"
  by (simp_all add: no_options_def)

lemma trim_markup:
  assumes "\<not> is_space x"
  shows "trim (x # s @ ''>\<newline>'') = x # s @ ''>''"
proof -
  have "dropWhile is_space (rev (s @ ''>\<newline>'') @ [x]) = CHR ''>'' # rev s @ [x]"
    by (simp add: is_space_def)
  then show ?thesis using assms by (simp add: trim_def)
qed

lemma js_join_empty_append: "js_join [] (xs @ ys) = js_join [] xs @ js_join [] ys"
  by (simp add: js_join_empty_sep)

lemma nested_list_markup:
  assumes types: "getType b0 = UNORDERED_LIST_ITEM" "getType b1 = UNORDERED_LIST_ITEM"
      "getType b2 = UNORDERED_LIST_ITEM"
    and depths: "getDepth b0 = 0" "getDepth b1 = 1" "getDepth b2 = 1"
    and contents:
      "renderBlockContent css gl (fst (MarkupGenerator_new gl [b0, b1, b2] None)) b0 = Inr c0"
      "renderBlockContent css gl (fst (MarkupGenerator_new gl [b0, b1, b2] None)) b1 = Inr c1"
      "renderBlockContent css gl (fst (MarkupGenerator_new gl [b0, b1, b2] None)) b2 = Inr c2"
    and fuel: "6 \<le> fuel"
  shows "fst (stateToHTML fuel css gl [b0, b1, b2] None) =
     Inr (''<ul>\<newline>'' @
          ''  <li>'' @ c0 @ ''\<newline>'' @
          ''    <ul>\<newline>'' @
          ''      <li>'' @ c1 @ ''</li>\<newline>'' @
          ''      <li>'' @ c2 @ ''</li>\<newline>'' @
          ''    </ul>\<newline>'' @
          ''  </li>\<newline>'' @
          ''</ul>'')"
proof -
  have "fuel = Suc (Suc (Suc (Suc (Suc (Suc (fuel - 6))))))"
    using fuel by simp
  then obtain k where k: "fuel = Suc (Suc (Suc (Suc (Suc (Suc k)))))" ..
  let ?g = "\<lparr>contentState = [b0, b1, b2], options = no_options, gen_entityGetter = Entity_get gl,
       gen_entityAttributesRendererMap = DATA_TO_ATTR,
       gen_inlineStyles = DEFAULT_STYLE_MAP, styleOrder = DEFAULT_STYLE_ORDER\<rparr>"
  have c: "renderBlockContent css gl ?g b0 = Inr c0" "renderBlockContent css gl ?g b1 = Inr c1"
    "renderBlockContent css gl ?g b2 = Inr c2"
    using contents by (simp_all add: MarkupGenerator_new_default)
  have run: "generate_while fuel css gl ?g (initial_state ?g) =
     Inr \<lparr>output = [[], ''<ul>\<newline>'', ''  '', ''<li>'', c0, ''\<newline>'',
                    ''    '', ''<ul>\<newline>'', ''      '', ''<li>'', c1, ''</li>\<newline>'',
                    ''      '', ''<li>'', c2, ''</li>\<newline>'', ''    '', ''</ul>\<newline>'',
                    ''  '', ''</li>\<newline>''],
          blocks = [b0, b1, b2], totalBlocks = 3, currentBlock = 3, indentLevel = 1,
          wrapperTag = Some ''ul''\<rparr>"
    unfolding k
    by (simp add: machine_eval Let_def types depths c eval_nat_numeral)
  show ?thesis
    unfolding stateToHTML_def MarkupGenerator_new_default
    apply (simp add: generate_def run)
    apply (simp add: and_then_def closeWrapperTag_def indent_def push_def INDENT_def
        js_join_empty_sep)
    apply (rule trim_markup [of "CHR ''<''" "''ul>\<newline>  <li>'' @ c0 @ ''\<newline>    <ul>\<newline>      <li>'' @ c1 @ ''</li>\<newline>      <li>'' @ c2 @ ''</li>\<newline>    </ul>\<newline>  </li>\<newline></ul''", simplified])
    apply (simp add: is_space_def)
    done
qed

section \<open>Fragments, wrappers and the invariant\<close>




lemma push_sel [simp]:
  "blocks (push f st) = blocks st" "totalBlocks (push f st) = totalBlocks st"
  "currentBlock (push f st) = currentBlock st" "indentLevel (push f st) = indentLevel st"
  "wrapperTag (push f st) = wrapperTag st" "output (push f st) = output st @ [f]"
  by (simp_all add: push_def)

lemma current_wrapper_push [simp]: "current_wrapper (push f st) = current_wrapper st"
  by (simp add: current_wrapper_def)

lemma base_level_push [simp]: "base_level (push f st) = base_level st"
  by (simp add: base_level_def)








section \<open>Rendering never throws for a generator the constructor made\<close>

lemma renderStyles_total:
  "list_all (\<lambda>name. map_of styles name \<noteq> None) order \<Longrightarrow>
   \<exists>c. renderStyles css styles bt ss order content = Inr c"
  by (induction order arbitrary: content) (auto simp: Let_def)

lemma map_throwing_total:
  "(\<And>x. x \<in> set xs \<Longrightarrow> \<exists>y. f x = Inr y) \<Longrightarrow> \<exists>ys. map_throwing f xs = Inr ys"
proof (induction xs)
  case Nil
  show ?case by simp
next
  case (Cons x xs)
  obtain y where y: "f x = Inr y" using Cons.prems [of x] by auto
  obtain ys where ys: "map_throwing f xs = Inr ys" using Cons.IH Cons.prems by auto
  show ?case by (simp add: y ys)
qed

lemma renderStylePieces_total:
  assumes "well_configured g"
  shows "\<exists>c. renderStylePieces css g bt pieces = Inr c"
proof -
  have "\<exists>ys. map_throwing
          (\<lambda>(txt, styleSet).
             renderStyles css (gen_inlineStyles g) bt styleSet (styleOrder g) (encodeContent txt))
          pieces = Inr ys"
    using assms renderStyles_total
    by (intro map_throwing_total) (auto simp: well_configured_def)
  then show ?thesis by (auto simp: renderStylePieces_def)
qed

lemma entityAttrs_total:
  assumes "well_configured g"
  shows "\<exists>a. entityAttrs gl g ty ent = Inr a"
  using assms by (auto simp: entityAttrs_def well_configured_def split: option.splits)

lemma formatEntity_total:
  assumes "well_configured g"
  shows "\<exists>p. formatEntity gl g key content = Inr p"
proof (cases "resolveEntity g key")
  case None
  then show ?thesis by (simp add: formatEntity_def)
next
  case (Some ent)
  show ?thesis
  proof (cases "toUpperCase (entity_getType ent)")
    case None
    then show ?thesis using Some by (simp add: formatEntity_def)
  next
    case upper: (Some entityType)
    obtain a where a: "entityAttrs gl g entityType ent = Inr a"
      using entityAttrs_total [OF assms] by blast
    show ?thesis
      using Some upper a by (auto simp: formatEntity_def hasOwnProperty_def)
  qed
qed

lemma renderBlockContent_total:
  assumes "well_configured g"
  shows "\<exists>c. renderBlockContent css gl g b = Inr c"
proof -
  have piece: "\<exists>y. renderEntityPiece css gl g bt p = Inr y" for bt p
  proof -
    obtain key pieces where p: "p = (key, pieces)" by (cases p)
    obtain c where c: "renderStylePieces css g bt pieces = Inr c"
      using renderStylePieces_total [OF assms] by blast
    show ?thesis
      using formatEntity_total [OF assms, of gl key c] by (simp add: renderEntityPiece_def p c)
  qed
  have "\<exists>ys. map_throwing (renderEntityPiece css gl g (getType b))
          (getEntityRanges (preserveWhitespace (getText b)) (getCharacterList b)) = Inr ys"
    by (intro map_throwing_total piece)
  then show ?thesis
    by (auto simp: renderBlockContent_def Let_def)
qed

lemma combineOrderedStyles_complete:
  "list_all (\<lambda>name. map_of (fst (combineOrderedStyles custom (DEFAULT_STYLE_MAP, DEFAULT_STYLE_ORDER))) name \<noteq> None)
     (snd (combineOrderedStyles custom (DEFAULT_STYLE_MAP, DEFAULT_STYLE_ORDER)))"
proof (cases custom)
  case None
  then show ?thesis
    by (simp add: combineOrderedStyles_def DEFAULT_STYLE_MAP_def DEFAULT_STYLE_ORDER_def)
next
  case (Some cm)
  define merge :: "string \<times> RenderConfig \<Rightarrow> StyleMap \<times> string list \<Rightarrow> StyleMap \<times> string list"
    where "merge = (\<lambda>(styleName, config) (styleMap, order).
                  (obj_set styleName config styleMap,
                   if styleName \<in> set order then order else order @ [styleName]))"
  define complete :: "StyleMap \<times> string list \<Rightarrow> bool"
    where "complete = (\<lambda>acc. list_all (\<lambda>name. map_of (fst acc) name \<noteq> None) (snd acc))"
  have one: "complete (merge p acc)" if "complete acc" for p acc
  proof -
    obtain n c where p: "p = (n, c)" by (cases p)
    obtain m ord where acc: "acc = (m, ord)" by (cases acc)
    show ?thesis
      using that by (auto simp: complete_def merge_def p acc map_of_obj_set list_all_iff)
  qed
  have all: "complete acc \<Longrightarrow> complete (fold merge cm acc)" for acc
    by (induction cm arbitrary: acc) (simp_all add: one)
  have "complete (DEFAULT_STYLE_MAP, DEFAULT_STYLE_ORDER)"
    by (simp add: complete_def DEFAULT_STYLE_MAP_def DEFAULT_STYLE_ORDER_def)
  then have "complete (fold merge cm (DEFAULT_STYLE_MAP, DEFAULT_STYLE_ORDER))"
    by (rule all)
  then show ?thesis
    using Some by (simp add: combineOrderedStyles_def complete_def merge_def)
qed

lemma MarkupGenerator_new_well_configured:
  "well_configured (fst (MarkupGenerator_new gl content opts))"
proof -
  have r: "map_of (Object_assign DATA_TO_ATTR m) ''DEFAULT'' \<noteq> None" for m
    by (simp add: map_of_Object_assign DATA_TO_ATTR_def map_add_def split: option.splits)
  have d: "map_of DATA_TO_ATTR ''DEFAULT'' \<noteq> None"
    by (simp add: DATA_TO_ATTR_def)
  show ?thesis
    using combineOrderedStyles_complete r d
    by (simp add: well_configured_def MarkupGenerator_new_def Let_def split: option.splits)
qed

section \<open>A nested list\<close>

text \<open>
  C4. Three blocks of the type \<open>unordered-list-item\<close> with the depths 0, 1, 1, with the
  default configuration and fuel for six nested calls: the markup is one outer \<open>ul\<close>
  with the first item, which contains after its content a nested \<open>ul\<close> with the second
  and the third item, and every tag opened is closed once, in order.
\<close>

theorem nested_list:
  assumes "getType b0 = UNORDERED_LIST_ITEM" "getType b1 = UNORDERED_LIST_ITEM"
      "getType b2 = UNORDERED_LIST_ITEM"
    and "getDepth b0 = 0" "getDepth b1 = 1" "getDepth b2 = 1"
    and "6 \<le> fuel"
  shows "\<exists>c0 c1 c2.
     renderBlockContent css gl (fst (MarkupGenerator_new gl [b0, b1, b2] None)) b0 = Inr c0 \<and>
     renderBlockContent css gl (fst (MarkupGenerator_new gl [b0, b1, b2] None)) b1 = Inr c1 \<and>
     renderBlockContent css gl (fst (MarkupGenerator_new gl [b0, b1, b2] None)) b2 = Inr c2 \<and>
     fst (stateToHTML fuel css gl [b0, b1, b2] None) =
       Inr (''<ul>\<newline>'' @
            ''  <li>'' @ c0 @ ''\<newline>'' @
            ''    <ul>\<newline>'' @
            ''      <li>'' @ c1 @ ''</li>\<newline>'' @
            ''      <li>'' @ c2 @ ''</li>\<newline>'' @
            ''    </ul>\<newline>'' @
            ''  </li>\<newline>'' @
            ''</ul>'')"
proof -
  let ?g = "fst (MarkupGenerator_new gl [b0, b1, b2] None)"
  have wc: "well_configured ?g" by (rule MarkupGenerator_new_well_configured)
  obtain c0 where c0: "renderBlockContent css gl ?g b0 = Inr c0"
    using renderBlockContent_total [OF wc] by blast
  obtain c1 where c1: "renderBlockContent css gl ?g b1 = Inr c1"
    using renderBlockContent_total [OF wc] by blast
  obtain c2 where c2: "renderBlockContent css gl ?g b2 = Inr c2"
    using renderBlockContent_total [OF wc] by blast
  show ?thesis
    using nested_list_markup [OF assms(1-6) c0 c1 c2 assms(7)] c0 c1 c2 by blast
qed

theorem nested_list_witness:
  "fst (stateToHTML 6 css_none (initial_globals (\<lambda>k. None))
         [list_item ''a'' 0, list_item ''b'' 1, list_item ''c'' 1] None) =
     Inr (''<ul>\<newline>'' @
          ''  <li>a\<newline>'' @
          ''    <ul>\<newline>'' @
          ''      <li>b</li>\<newline>'' @
          ''      <li>c</li>\<newline>'' @
          ''    </ul>\<newline>'' @
          ''  </li>\<newline>'' @
          ''</ul>'')"
proof -
  have pw: "preserveWhitespace [c] = [c]" if "c \<noteq> CHR '' ''" for c
    using that by (simp add: preserveWhitespace_map preserved_unit_def upt_rec)
  have content: "renderBlockContent css gl g (list_item [c] d) = Inr [c]"
    if "c \<in> {CHR ''a'', CHR ''b'', CHR ''c''}" for css gl g c d
    using that by (auto simp: list_item_content pw encodeContent_units escape_content_unit_def NBSP_def)
  show ?thesis
    using nested_list [of "list_item ''a'' 0" "list_item ''b'' 1" "list_item ''c'' 1" 6 css_none
        "initial_globals (\<lambda>k. None)"]
    by (simp add: content)
qed

section \<open>Opening, closing and switching the wrapper\<close>













section \<open>Start and end tags\<close>







lemma writeEndTag_push: "writeEndTag blk st = push (end_tag_line (getType blk)) st"
  by (simp add: writeEndTag_def end_tag_line_def)



lemma writeEndTag_sel [simp]:
  "currentBlock (writeEndTag blk st) = currentBlock st"
  "wrapperTag (writeEndTag blk st) = wrapperTag st"
  "indentLevel (writeEndTag blk st) = indentLevel st"
  by (simp_all add: writeEndTag_push)



section \<open>Nested lists\<close>









section \<open>One block\<close>

declare processBlock.simps [simp del] processBlocksAtDepth.simps [simp del]
  processBlocksAtDepth_while.simps [simp del] getTags.simps [simp del]
  getWrapperTag.simps [simp del] canHaveDepth.simps [simp del]


section \<open>Every run returns and keeps the invariant\<close>






section \<open>The output depends on the tables only through the content of the blocks\<close>





















section \<open>A document of one empty block\<close>

lemma empty_block_document:
  assumes "getText blk = []" and "2 \<le> fuel"
  shows "fst (stateToHTML fuel css gl [blk] None) =
     Inr (case getWrapperTag (getType blk) of
            None \<Rightarrow> start_tags (getType blk) @ BREAK @ end_tags (getType blk)
          | Some w \<Rightarrow>
              ''<'' @ w @ ''>\<newline>  '' @ start_tags (getType blk) @ BREAK @
              end_tags (getType blk) @ ''\<newline></'' @ w @ ''>'')"
proof -
  have "fuel = Suc (Suc (fuel - 2))" using assms(2) by simp
  then obtain k where k: "fuel = Suc (Suc k)" ..
  have c: "renderBlockContent css gl g blk = Inr BREAK" for g
    using assms(1) by (rule renderBlockContent_empty)
  show ?thesis
    unfolding k stateToHTML_def MarkupGenerator_new_default
    by (simp add: machine_eval Let_def processBlock.simps getTags.simps getWrapperTag.simps
        canHaveDepth.simps c start_tags_def end_tags_def trim_def is_space_def BREAK_def
        js_join_empty_sep)
qed

section \<open>The settled behaviour of whole runs\<close>

lemma plain_block_sel [simp]: "getType (plain_block t) = UNSTYLED" "getDepth (plain_block t) = 0"
  "getText (plain_block t) = t" "getCharacterList (plain_block t) = []"
  by (simp_all add: plain_block_def)

text \<open>
  C9. A block whose text is empty has the line-break marker as its content, whatever the
  configuration; and a document of one such block renders, with the default
  configuration, as the start tags of the block, the marker and the end tags (inside
  the list wrapper for a list item), never as an empty pair of tags.
\<close>

theorem empty_block_renders_break:
  "(getText blk = [] \<longrightarrow> renderBlockContent css gl g blk = Inr BREAK) \<and>
   (getText blk = [] \<and> 2 \<le> fuel \<longrightarrow>
      fst (stateToHTML fuel css gl [blk] None) =
        Inr (case getWrapperTag (getType blk) of
               None \<Rightarrow> start_tags (getType blk) @ BREAK @ end_tags (getType blk)
             | Some w \<Rightarrow>
                 ''<'' @ w @ ''>\<newline>  '' @ start_tags (getType blk) @ BREAK @
                 end_tags (getType blk) @ ''\<newline></'' @ w @ ''>''))"
  using renderBlockContent_empty empty_block_document by simp

theorem empty_block_renders_break_witness:
  "renderBlockContent css_none (initial_globals (\<lambda>k. None))
     (fst (MarkupGenerator_new (initial_globals (\<lambda>k. None)) [plain_block []] None))
     (plain_block []) = Inr ''<br>'' \<and>
   fst (stateToHTML 2 css_none (initial_globals (\<lambda>k. None)) [plain_block []] None) =
     Inr ''<p><br></p>'' \<and>
   fst (stateToHTML 2 css_none (initial_globals (\<lambda>k. None)) [list_item [] 0] None) =
     Inr ''<ul>\<newline>  <li><br></li>\<newline></ul>''"
  using empty_block_renders_break [of "plain_block []" css_none "initial_globals (\<lambda>k. None)"
      "fst (MarkupGenerator_new (initial_globals (\<lambda>k. None)) [plain_block []] None)" 2]
    empty_block_renders_break [of "list_item [] 0" css_none "initial_globals (\<lambda>k. None)" _ 2]
  by (simp add: BREAK_def start_tags_def end_tags_def getTags.simps getWrapperTag.simps)

lemma stateToHTML_globals:
  "snd (stateToHTML fuel css gl content opts) = snd (MarkupGenerator_new gl content opts)"
  by (auto simp: stateToHTML_def split: prod.splits sum.splits)

text \<open>
  C2 says that a call leaves the tables of the module unchanged, so that a later call
  without options gives what it would have given alone. After a first call whose options
  register a formatter for \<open>LINK\<close>, a second call without options on the link example
  uses that formatter; alone, the same call gives the anchor.
\<close>

theorem formatter_override_leaks:
  "fst (stateToHTML 2 css_none
          (snd (stateToHTML 2 css_none (initial_globals link_registry) [link_block]
                  (Some (no_options\<lparr>entityFormatterMap := Some [(LINK, bang_formatter)]\<rparr>))))
          [link_block] None) = Inr ''<p>!click!</p>'' \<and>
   fst (stateToHTML 2 css_none (initial_globals link_registry) [link_block] None) =
     Inr (''<p><a href='' @ [DQUOTE] @ ''https://x'' @ [DQUOTE] @ ''>click</a></p>'')"
proof -
  let ?gl0 = "initial_globals link_registry"
  let ?opts = "no_options\<lparr>entityFormatterMap := Some [(LINK, bang_formatter)]\<rparr>"
  let ?gl1 = "?gl0\<lparr>ENTITY_FORMATTER_MAP :=
                 obj_set LINK bang_formatter (ENTITY_FORMATTER_MAP ?gl0)\<rparr>"
  have new: "snd (MarkupGenerator_new ?gl0 [link_block] (Some ?opts)) = ?gl1"
    by (simp add: MarkupGenerator_new_def Let_def Object_assign_def no_options_def)
  have first: "snd (stateToHTML 2 css_none ?gl0 [link_block] (Some ?opts)) = ?gl1"
    using new by (simp only: stateToHTML_globals)
  have nonempty: "getText link_block \<noteq> []" by (simp add: link_block_def)
  have cl: "getCharacterList link_block =
      replicate (length (getText link_block)) \<lparr>getStyle = [], getEntity = Some ''1''\<rparr>"
    by (simp add: link_block_def eval_nat_numeral)
  have pw: "preserveWhitespace ''click'' = ''click''"
    by (simp add: preserveWhitespace_map preserved_unit_def upt_rec)
  let ?g = "\<lparr>contentState = [link_block], options = no_options,
       gen_entityGetter = link_registry,
       gen_entityAttributesRendererMap = DATA_TO_ATTR,
       gen_inlineStyles = DEFAULT_STYLE_MAP, styleOrder = DEFAULT_STYLE_ORDER\<rparr>"
  have c1: "renderBlockContent css_none ?gl1 ?g link_block = Inr ''!click!''"
    unfolding renderBlockContent_uniform [OF nonempty cl]
    by (simp add: link_block_def pw renderStyles_no_styles encodeContent_units
        escape_content_unit_def NBSP_def entity_eval link_registry_def bang_formatter_def)
  have c0: "renderBlockContent css_none ?gl0 ?g link_block =
     Inr (''<a href='' @ [DQUOTE] @ ''https://x'' @ [DQUOTE] @ ''>click</a>'')"
    unfolding renderBlockContent_uniform [OF nonempty cl]
    by (simp add: link_block_def pw renderStyles_no_styles encodeContent_units
        escape_content_unit_def NBSP_def entity_eval link_registry_def)
  have ty: "getType link_block = UNSTYLED" "getDepth link_block = 0"
    by (simp_all add: link_block_def)
  have g1: "MarkupGenerator_new ?gl1 [link_block] None = (?g, ?gl1)"
    by (simp add: MarkupGenerator_new_default initial_globals_def)
  have g0: "MarkupGenerator_new ?gl0 [link_block] None = (?g, ?gl0)"
    by (simp add: MarkupGenerator_new_default initial_globals_def)
  have second: "fst (stateToHTML 2 css_none ?gl1 [link_block] None) = Inr ''<p>!click!</p>''"
    unfolding stateToHTML_def g1
    by (simp add: eval_nat_numeral machine_eval Let_def processBlock.simps getTags.simps
        getWrapperTag.simps canHaveDepth.simps c1 ty trim_def is_space_def js_join_empty_sep)
  have fresh: "fst (stateToHTML 2 css_none ?gl0 [link_block] None) =
     Inr (''<p><a href='' @ [DQUOTE] @ ''https://x'' @ [DQUOTE] @ ''>click</a></p>'')"
    unfolding stateToHTML_def g0
    by (simp add: eval_nat_numeral machine_eval Let_def processBlock.simps getTags.simps
        getWrapperTag.simps canHaveDepth.simps c0 ty trim_def is_space_def js_join_empty_sep
        DQUOTE_def)
  show ?thesis
    unfolding first using second fresh by simp
qed




section \<open>Dispatch to the formatters, for whole documents\<close>



end
